theory Spec2Isabelle
  imports Complex_Main "HOL-Library.Char_ord" "HOL-Library.List_Lexorder"
begin

section \<open>Dates\<close>

text \<open>
  A Python \<open>datetime.date\<close> is modelled by its proleptic Gregorian ordinal
  (\<open>date.toordinal()\<close>): comparison of dates is comparison of ordinals, and
  \<open>(a - b).days\<close> is the difference of ordinals. Python's dates range from
  0001-01-01 (ordinal 1) to 9999-12-31 (ordinal 3652059); adding a \<open>timedelta\<close>
  that leaves this range raises \<open>OverflowError\<close>.
\<close>

type_synonym date = int

datatype error = OverflowError | KeyError | TypeError | ValueError

definition date_max :: date where
  "date_max = 3652059"

definition date_ok :: "date \<Rightarrow> bool" where
  "date_ok d = (1 \<le> d \<and> d \<le> date_max)"

definition date_add :: "date \<Rightarrow> int \<Rightarrow> error + date" where
  "date_add d k = (if date_ok (d + k) then Inr (d + k) else Inl OverflowError)"

text \<open>
  \<open>date.strftime('%Y-%m-%d')\<close>: the year, month and day of an ordinal as CPython's
  \<open>_ord2ymd\<close> computes them, printed with leading zeros (for the years from 1000 on,
  what \<open>strftime\<close> prints on every platform).
\<close>

definition days_before_month :: "int list" where
  "days_before_month = [- 1, 0, 31, 59, 90, 120, 151, 181, 212, 243, 273, 304, 334]"

definition days_in_month :: "int list" where
  "days_in_month = [- 1, 31, 28, 31, 30, 31, 30, 31, 31, 30, 31, 30, 31]"

definition ord2ymd :: "date \<Rightarrow> int \<times> int \<times> int" where
  "ord2ymd ordinal =
     (let n = ordinal - 1;
          n400 = n div 146097; n = n mod 146097;
          n100 = n div 36524; n = n mod 36524;
          n4 = n div 1461; n = n mod 1461;
          n1 = n div 365; n = n mod 365;
          year = n400 * 400 + 1 + n100 * 100 + n4 * 4 + n1
      in if n1 = 4 \<or> n100 = 4 then (year - 1, 12, 31)
         else
           (let leapyear = (n1 = 3 \<and> (n4 \<noteq> 24 \<or> n100 = 3));
                month = (n + 50) div 32;
                preceding = days_before_month ! nat month
                              + (if month > 2 \<and> leapyear then 1 else 0)
            in if preceding > n
               then (let month' = month - 1;
                         preceding' = preceding - (days_in_month ! nat month'
                                         + (if month' = 2 \<and> leapyear then 1 else 0))
                     in (year, month', n - preceding' + 1))
               else (year, month, n - preceding + 1)))"

definition digit_char :: "int \<Rightarrow> char" where
  "digit_char d = ''0123456789'' ! nat d"

definition zero_pad2 :: "int \<Rightarrow> string" where
  "zero_pad2 n = [digit_char (n div 10 mod 10), digit_char (n mod 10)]"

definition zero_pad4 :: "int \<Rightarrow> string" where
  "zero_pad4 n = zero_pad2 (n div 100) @ zero_pad2 n"

definition strftime_ymd :: "date \<Rightarrow> string" where
  "strftime_ymd d =
     (case ord2ymd d of (y, m, dd) \<Rightarrow> zero_pad4 y @ ''-'' @ zero_pad2 m @ ''-'' @ zero_pad2 dd)"


section \<open>Date range of a request\<close>

text \<open>Lines 205-208: the dates are swapped when the start is after the end.\<close>

definition swap_dates :: "date \<Rightarrow> date \<Rightarrow> date \<times> date" where
  "swap_dates start_date_date end_date_date =
     (if start_date_date > end_date_date then (end_date_date, start_date_date)
      else (start_date_date, end_date_date))"

text \<open>
  Lines 243-249: the range is clamped to the availability \<open>[min_date, max_date]\<close> of the
  effective dataset.
\<close>

definition clamp_dates :: "date \<Rightarrow> date \<Rightarrow> date \<times> date \<Rightarrow> date \<times> date" where
  "clamp_dates min_date max_date r =
     (let start_date_date = (if fst r < min_date then min_date else fst r);
          end_date_date = (if snd r > max_date then max_date else snd r)
      in (start_date_date, end_date_date))"

section \<open>Strings\<close>

text \<open>Python's \<open>sub in s\<close> and \<open>s.replace(old, new)\<close> (for a non-empty \<open>old\<close>).\<close>

definition starts_with :: "string \<Rightarrow> string \<Rightarrow> bool" where
  "starts_with sub s = (take (length sub) s = sub)"

fun contains_str :: "string \<Rightarrow> string \<Rightarrow> bool" where
  "contains_str sub [] = (sub = [])"
| "contains_str sub (c # cs) = (starts_with sub (c # cs) \<or> contains_str sub cs)"

function replace_str :: "string \<Rightarrow> string \<Rightarrow> string \<Rightarrow> string" where
  "replace_str old new [] = []"
| "replace_str old new (c # cs) =
     (if old \<noteq> [] \<and> starts_with old (c # cs)
      then new @ replace_str old new (drop (length old) (c # cs))
      else c # replace_str old new cs)"
  by pat_completeness auto
termination
  by (relation "measure (\<lambda>(old, new, s). length s)") auto

text \<open>
  The text of a response is a Python \<open>str\<close>; a character of the model is a code point
  below 256. \<open>text.strip()\<close> removes the characters that are whitespace for
  \<open>str.isspace\<close>; below 256 these are the codes 9-13, 28-32, 133 (U+0085) and 160
  (U+00A0). \<open>text.strip()\<close> is truthy iff some character of the text is not
  whitespace.
\<close>

definition is_space :: "char \<Rightarrow> bool" where
  "is_space c =
     (let n = (of_char c :: nat)
      in (9 \<le> n \<and> n \<le> 13) \<or> (28 \<le> n \<and> n \<le> 32) \<or> n = 133 \<or> n = 160)"

definition strip_nonempty :: "string \<Rightarrow> bool" where
  "strip_nonempty text = list_ex (\<lambda>c. \<not> is_space c) text"

section \<open>Dataset selection in \<open>fetch_fire_data\<close>\<close>

text \<open>
  \<open>DATASET_AVAILABILITY\<close> maps a dataset identifier to its \<open>min_date\<close> and
  \<open>max_date\<close> (here already parsed to dates). It is imported from the settings module;
  when the import fails the table of lines 158-167 is used.
\<close>

type_synonym availability = "(string \<times> (date \<times> date)) list"

definition DATASET_AVAILABILITY_fallback :: availability where
  "DATASET_AVAILABILITY_fallback =
     [(''MODIS_NRT'', (739221, 739334)),
      (''MODIS_SP'', (730425, 739251)),
      (''VIIRS_NOAA20_NRT'', (739221, 739334)),
      (''VIIRS_NOAA20_SP'', (736785, 739334)),
      (''VIIRS_NOAA21_NRT'', (738902, 739334)),
      (''VIIRS_SNPP_NRT'', (739252, 739334)),
      (''VIIRS_SNPP_SP'', (734522, 739334)),
      (''LANDSAT_NRT'', (738326, 739334))]"

text \<open>
  Lines 176-199: an argument that is not a date and does not parse as one (\<open>None\<close>
  here) defaults to seven days ago for the start and to today for the end.
\<close>

definition parse_date_arg :: "date \<Rightarrow> date option \<Rightarrow> date" where
  "parse_date_arg dflt a = (case a of Some d \<Rightarrow> d | None \<Rightarrow> dflt)"

text \<open>Lines 216-228.\<close>

definition select_dataset :: "availability \<Rightarrow> bool \<Rightarrow> string \<Rightarrow> string" where
  "select_dataset avail need_historical dataset =
     (if need_historical \<and> contains_str ''_NRT'' dataset then
        (let sp_dataset = replace_str ''_NRT'' ''_SP'' dataset in
         if map_of avail sp_dataset \<noteq> None then sp_dataset else ''VIIRS_SNPP_SP'')
      else dataset)"

record resolved =
  rq_dataset :: string
  rq_original_dataset :: string
  rq_need_historical :: bool
  rq_start_date :: date
  rq_end_date :: date

text \<open>
  Lines 170-249 of \<open>fetch_fire_data\<close>: the dates are parsed and swapped, the dataset is
  selected and validated (\<open>None\<close> is the \<open>return None\<close> of line 236), and the
  range is clamped to the dataset's availability. \<open>today\<close> is
  \<open>datetime.now().date()\<close>, for which \<open>today - timedelta(days=7)\<close> does not
  overflow. The bounding box is resolved next (lines 254-266); that step changes neither
  the dates nor the dataset.
\<close>

definition resolve_request ::
  "availability \<Rightarrow> date \<Rightarrow> string \<Rightarrow> date option \<Rightarrow> date option \<Rightarrow> resolved option" where
  "resolve_request avail today ds start_date end_date =
     (let r = swap_dates (parse_date_arg (today - 7) start_date) (parse_date_arg today end_date);
          nh = (today - fst r > 30);
          ds' = select_dataset avail nh ds
      in case map_of avail ds' of
           None \<Rightarrow> None
         | Some (min_date, max_date) \<Rightarrow>
             (let r' = clamp_dates min_date max_date r
              in Some \<lparr>rq_dataset = ds', rq_original_dataset = ds, rq_need_historical = nh,
                       rq_start_date = fst r', rq_end_date = snd r'\<rparr>))"

section \<open>Chunk planning in \<open>fetch_fire_data\<close>\<close>

text \<open>
  Lines 316-322, the \<open>while current_date <= end_date_date\<close> loop. With
  \<open>chunk_days = 0\<close> the loop never advances, so the model is a partial function whose
  value \<open>None\<close> stands for not returning; \<open>Some (Inl e)\<close> is a raised exception.
\<close>

partial_function (option) date_chunks_loop ::
  "int \<Rightarrow> date \<Rightarrow> date \<Rightarrow> (date \<times> date) list \<Rightarrow> (error + (date \<times> date) list) option"
where
  "date_chunks_loop chunk_days current_date end_date_date date_chunks =
     (if current_date \<le> end_date_date then
        (case date_add current_date (min 10 chunk_days - 1) of
           Inl e \<Rightarrow> Some (Inl e)
         | Inr d \<Rightarrow>
             (let chunk_end = min d end_date_date in
              (case date_add chunk_end 1 of
                 Inl e \<Rightarrow> Some (Inl e)
               | Inr next_date \<Rightarrow>
                   date_chunks_loop chunk_days next_date end_date_date
                     (date_chunks @ [(current_date, chunk_end)]))))
      else Some (Inr date_chunks))"

definition date_chunks_of :: "int \<Rightarrow> date \<times> date \<Rightarrow> (error + (date \<times> date) list) option" where
  "date_chunks_of chunk_days r = date_chunks_loop chunk_days (fst r) (snd r) []"

text \<open>Properties of a plan.\<close>

fun contiguous :: "(date \<times> date) list \<Rightarrow> bool" where
  "contiguous [] = True"
| "contiguous [c] = True"
| "contiguous (c1 # c2 # cs) = (fst c2 = snd c1 + 1 \<and> contiguous (c2 # cs))"

definition chunk_days_of :: "date \<times> date \<Rightarrow> int" where
  "chunk_days_of c = snd c - fst c + 1"

definition covered :: "(date \<times> date) list \<Rightarrow> date set" where
  "covered plan = (\<Union>c \<in> set plan. {fst c .. snd c})"

section \<open>Tables and responses\<close>

text \<open>
  A pandas \<open>DataFrame\<close> is its column names and its rows; a row maps a column name to
  a cell (a missing value, NaN, is \<open>None\<close>). A cell is a float, an integer, a string
  or a timestamp (\<open>datetime64[ns]\<close>, in nanoseconds). A finite float is the real
  number it denotes: comparisons are exact, and the arithmetic of the clustering is
  taken without rounding.
\<close>

datatype cell = Num real | IntV int | Str string | Stamp int

type_synonym row = "string \<rightharpoonup> cell"

record dataframe =
  columns :: "string list"
  rows :: "row list"

definition empty_frame :: dataframe where
  "empty_frame = \<lparr>columns = [], rows = []\<rparr>"

definition is_empty :: "dataframe \<Rightarrow> bool" where
  "is_empty df = (rows df = [] \<or> columns df = [])"

text \<open>\<open>pd.concat([a, b], ignore_index=True)\<close>: the union of the columns, the rows of both.\<close>

definition concat_frames :: "dataframe \<Rightarrow> dataframe \<Rightarrow> dataframe" where
  "concat_frames a b =
     \<lparr>columns = columns a @ filter (\<lambda>c. c \<notin> set (columns a)) (columns b),
      rows = rows a @ rows b\<rparr>"

text \<open>
  The outcome of \<open>session.get(url)\<close> followed by \<open>raise_for_status()\<close>: an exception
  (a transport error, or the HTTP error raised for an error status), or the body text.
\<close>

datatype http_result = Raised | Body string

text \<open>The validity test of lines 288, 304, 499 and 542.\<close>

definition valid_text :: "string \<Rightarrow> bool" where
  "valid_text text =
     (strip_nonempty text \<and> \<not> contains_str ''Invalid'' text \<and> \<not> contains_str ''Error'' text)"

section \<open>The probe request\<close>

record probe_result =
  pr_dataset :: string
  pr_abort :: bool
  pr_queried :: "string list"

text \<open>
  Lines 280-314. \<open>session_get\<close> answers the test request for a dataset (the rest of the
  test URL is fixed), \<open>read_csv\<close> is \<open>pd.read_csv\<close> (\<open>None\<close> when it raises). The
  result is the dataset used from then on, whether the function returned \<open>None\<close>
  (line 310), and the datasets queried, in order. Every exception is caught by line 313.
\<close>

definition probe ::
  "(string \<Rightarrow> http_result) \<Rightarrow> (string \<Rightarrow> dataframe option) \<Rightarrow> resolved \<Rightarrow> date \<Rightarrow> probe_result" where
  "probe session_get read_csv rq today =
     (let ds = rq_dataset rq; orig = rq_original_dataset rq;
          keep = \<lparr>pr_dataset = ds, pr_abort = False, pr_queried = [ds]\<rparr>;
          switched = \<lparr>pr_dataset = orig, pr_abort = False, pr_queried = [ds, orig]\<rparr>
      in case session_get ds of
           Raised \<Rightarrow> keep
         | Body text \<Rightarrow>
             if valid_text text then
               (case read_csv text of
                  None \<Rightarrow> keep
                | Some test_df \<Rightarrow>
                    if length (rows test_df) > 0 then keep
                    else if rq_need_historical rq \<and> ds \<noteq> orig \<and> rq_end_date rq - today > - 30 then
                      (case session_get orig of
                         Raised \<Rightarrow> switched
                       | Body text2 \<Rightarrow>
                           if valid_text text2 then
                             (case read_csv text2 of
                                None \<Rightarrow> switched
                              | Some test_df2 \<Rightarrow>
                                  if length (rows test_df2) > 0 then switched
                                  else switched\<lparr>pr_abort := True\<rparr>)
                           else switched)
                    else keep)
             else keep)"

text \<open>
  An example archive: every test request is answered by a header line without records.
\<close>

definition header_only_get :: "string \<Rightarrow> http_result" where
  "header_only_get ds = Body ''latitude,longitude,acq_date''"

definition header_only_read_csv :: "string \<Rightarrow> dataframe option" where
  "header_only_read_csv text =
     (if text = ''latitude,longitude,acq_date''
      then Some \<lparr>columns = [''latitude'', ''longitude'', ''acq_date''], rows = []\<rparr>
      else None)"

text \<open>
  The condition of the specification for the fallback, in its words: the original
  dataset's \<open>max_date\<close> is within 30 days of the requested window.
\<close>

definition original_max_date_within_30_days_of_window :: "availability \<Rightarrow> resolved \<Rightarrow> bool" where
  "original_max_date_within_30_days_of_window avail rq =
     (case map_of avail (rq_original_dataset rq) of
        None \<Rightarrow> False
      | Some (min_date, max_date) \<Rightarrow>
          rq_start_date rq - 30 \<le> max_date \<and> max_date \<le> rq_end_date rq + 30)"

section \<open>Fetching the chunks\<close>

text \<open>
  \<open>chunk_df['acq_date'] >= chunk_start_str\<close> compares strings. On a column of strings a
  missing value compares false, a cell of another type raises \<open>TypeError\<close>.
\<close>

definition date_in_chunk :: "string \<Rightarrow> string \<Rightarrow> row \<Rightarrow> error + bool" where
  "date_in_chunk chunk_start_str chunk_end_str r =
     (case r ''acq_date'' of
        None \<Rightarrow> Inr False
      | Some (Str s) \<Rightarrow> Inr (chunk_start_str \<le> s \<and> s \<le> chunk_end_str)
      | Some _ \<Rightarrow> Inl TypeError)"

text \<open>\<open>df[mask]\<close>, where computing the mask may raise.\<close>

fun mask_rows :: "(row \<Rightarrow> error + bool) \<Rightarrow> row list \<Rightarrow> error + row list" where
  "mask_rows p [] = Inr []"
| "mask_rows p (r # rs) =
     (case p r of
        Inl e \<Rightarrow> Inl e
      | Inr b \<Rightarrow>
          (case mask_rows p rs of
             Inl e \<Rightarrow> Inl e
           | Inr rs' \<Rightarrow> Inr (if b then r # rs' else rs')))"

text \<open>
  \<open>chunk_df[date_mask].copy()\<close>; \<open>chunk_df['acq_date']\<close> raises \<open>KeyError\<close> when the
  column is missing. \<open>strftime\<close> is \<open>date.strftime('%Y-%m-%d')\<close>.
\<close>

definition date_filter :: "(date \<Rightarrow> string) \<Rightarrow> date \<times> date \<Rightarrow> dataframe \<Rightarrow> error + dataframe" where
  "date_filter strftime chunk chunk_df =
     (if ''acq_date'' \<notin> set (columns chunk_df) then Inl KeyError
      else (case mask_rows (date_in_chunk (strftime (fst chunk)) (strftime (snd chunk)))
                  (rows chunk_df) of
              Inl e \<Rightarrow> Inl e
            | Inr rs \<Rightarrow> Inr (chunk_df\<lparr>rows := rs\<rparr>)))"

text \<open>
  Lines 536-556 (and 493-513, the same statements): the frame that the standard paths
  concatenate to \<open>all_results\<close> for one chunk; \<open>None\<close> when nothing is concatenated.
  Every exception of the \<open>try\<close> block is caught and the chunk is skipped.
\<close>

definition standard_chunk_frame ::
  "(string \<Rightarrow> dataframe option) \<Rightarrow> (date \<Rightarrow> string) \<Rightarrow> date \<times> date \<Rightarrow> http_result
     \<Rightarrow> dataframe option" where
  "standard_chunk_frame read_csv strftime chunk response =
     (case response of
        Raised \<Rightarrow> None
      | Body body \<Rightarrow>
          if strip_nonempty body \<and> \<not> contains_str ''Invalid'' body \<and> \<not> contains_str ''Error'' body
          then
            (case read_csv body of
               None \<Rightarrow> None
             | Some chunk_df \<Rightarrow>
                 if \<not> is_empty chunk_df then
                   if ''acq_date'' \<in> set (columns chunk_df) then
                     (case date_filter strftime chunk chunk_df of
                        Inl e \<Rightarrow> None
                      | Inr filtered_chunk \<Rightarrow>
                          if \<not> is_empty filtered_chunk then Some filtered_chunk else None)
                   else Some chunk_df
                 else None)
          else None)"

text \<open>Lines 400-411, 428-439 and 456-467: the same for a sub-region of Russia.\<close>

definition russia_chunk_frame ::
  "(string \<Rightarrow> dataframe option) \<Rightarrow> (date \<Rightarrow> string) \<Rightarrow> date \<times> date \<Rightarrow> http_result
     \<Rightarrow> dataframe option" where
  "russia_chunk_frame read_csv strftime chunk response =
     (case response of
        Raised \<Rightarrow> None
      | Body body \<Rightarrow>
          if strip_nonempty body \<and> \<not> contains_str ''Invalid'' body then
            (case read_csv body of
               None \<Rightarrow> None
             | Some chunk_df \<Rightarrow>
                 if \<not> is_empty chunk_df then
                   (case date_filter strftime chunk chunk_df of
                      Inl e \<Rightarrow> None
                    | Inr filtered_chunk \<Rightarrow>
                        if \<not> is_empty filtered_chunk then Some filtered_chunk else None)
                 else None)
          else None)"

definition add_chunk :: "dataframe \<Rightarrow> dataframe option \<Rightarrow> dataframe" where
  "add_chunk all_results f =
     (case f of None \<Rightarrow> all_results | Some d \<Rightarrow> concat_frames all_results d)"

text \<open>
  A request to the archive: \<open>{base_url}{api_key}/{dataset}/{bbox}/{days}[/{start}]\<close>.
\<close>

record request =
  req_dataset :: string
  req_bbox :: string
  req_days :: int
  req_start :: "string option"

text \<open>Lines 525-534 (and 482-491): the URL of chunk \<open>i\<close> out of \<open>n\<close> on a standard path.\<close>

definition standard_request ::
  "bool \<Rightarrow> string \<Rightarrow> string \<Rightarrow> string \<Rightarrow> (date \<Rightarrow> string) \<Rightarrow> nat \<Rightarrow> nat \<Rightarrow> date \<times> date \<Rightarrow> request" where
  "standard_request nh ds orig bbox strftime n i chunk =
     (let days_in_chunk = snd chunk - fst chunk + 1;
          dated = \<lparr>req_dataset = ds, req_bbox = bbox, req_days = days_in_chunk,
                   req_start = Some (strftime (fst chunk))\<rparr>
      in if nh then dated
         else if i = 0 \<and> n = 1 \<and> days_in_chunk \<le> 7
              then \<lparr>req_dataset = orig, req_bbox = bbox, req_days = 7, req_start = None\<rparr>
              else dated)"

text \<open>Lines 394-398: the URL of a chunk for a sub-region of Russia.\<close>

definition russia_request :: "string \<Rightarrow> string \<Rightarrow> (date \<Rightarrow> string) \<Rightarrow> date \<times> date \<Rightarrow> request" where
  "russia_request ds region_bbox strftime chunk =
     \<lparr>req_dataset = ds, req_bbox = region_bbox, req_days = snd chunk - fst chunk + 1,
      req_start = Some (strftime (fst chunk))\<rparr>"

text \<open>The loops \<open>for i, (chunk_start, chunk_end) in enumerate(date_chunks)\<close>.\<close>

fun standard_loop ::
  "(request \<Rightarrow> http_result) \<Rightarrow> (string \<Rightarrow> dataframe option) \<Rightarrow> (date \<Rightarrow> string)
     \<Rightarrow> (nat \<Rightarrow> date \<times> date \<Rightarrow> request) \<Rightarrow> nat \<Rightarrow> (date \<times> date) list \<Rightarrow> dataframe \<Rightarrow> dataframe" where
  "standard_loop session_get read_csv strftime url i [] all_results = all_results"
| "standard_loop session_get read_csv strftime url i (chunk # chunks) all_results =
     standard_loop session_get read_csv strftime url (Suc i) chunks
       (add_chunk all_results
          (standard_chunk_frame read_csv strftime chunk (session_get (url i chunk))))"

fun russia_loop ::
  "(request \<Rightarrow> http_result) \<Rightarrow> (string \<Rightarrow> dataframe option) \<Rightarrow> (date \<Rightarrow> string)
     \<Rightarrow> (date \<times> date \<Rightarrow> request) \<Rightarrow> (date \<times> date) list \<Rightarrow> dataframe \<Rightarrow> dataframe" where
  "russia_loop session_get read_csv strftime url [] all_results = all_results"
| "russia_loop session_get read_csv strftime url (chunk # chunks) all_results =
     russia_loop session_get read_csv strftime url chunks
       (add_chunk all_results
          (russia_chunk_frame read_csv strftime chunk (session_get (url chunk))))"

definition large_countries :: "string list" where
  "large_countries =
     [''United States'', ''China'', ''Russia'', ''Canada'', ''Brazil'', ''Australia'', ''India'']"

definition west_bbox :: string where "west_bbox = ''19.25,41.151,60.0,81.2''"
definition central_bbox :: string where "central_bbox = ''60.0,41.151,120.0,81.2''"
definition east_bbox :: string where "east_bbox = ''120.0,41.151,180.0,81.2''"

text \<open>
  Lines 372-556: all chunks are fetched into \<open>all_results\<close>, for Russia once per
  sub-region. The other large countries differ from the normal path in the timeout only.
\<close>

definition fetch_chunks ::
  "(request \<Rightarrow> http_result) \<Rightarrow> (string \<Rightarrow> dataframe option) \<Rightarrow> (date \<Rightarrow> string)
     \<Rightarrow> string option \<Rightarrow> bool \<Rightarrow> string \<Rightarrow> string \<Rightarrow> string \<Rightarrow> (date \<times> date) list \<Rightarrow> dataframe" where
  "fetch_chunks session_get read_csv strftime country nh ds orig bbox date_chunks =
     (let standard = standard_loop session_get read_csv strftime
            (standard_request nh ds orig bbox strftime (length date_chunks)) 0 date_chunks empty_frame
      in case country of
           None \<Rightarrow> standard
         | Some c \<Rightarrow>
             if c \<in> set large_countries then
               if c = ''Russia'' then
                 (let west = russia_loop session_get read_csv strftime
                        (russia_request ds west_bbox strftime) date_chunks empty_frame;
                      central = russia_loop session_get read_csv strftime
                        (russia_request ds central_bbox strftime) date_chunks west
                  in russia_loop session_get read_csv strftime
                       (russia_request ds east_bbox strftime) date_chunks central)
               else standard
             else standard)"

text \<open>
  A chunk fetch that fails in the sense of the specification: a transport error or an
  error status (both raise), or a body with the marker \<open>Invalid\<close> or \<open>Error\<close>.
\<close>

definition chunk_failed :: "http_result \<Rightarrow> bool" where
  "chunk_failed response =
     (case response of
        Raised \<Rightarrow> True
      | Body body \<Rightarrow> contains_str ''Invalid'' body \<or> contains_str ''Error'' body)"

definition frame_rows :: "dataframe option \<Rightarrow> row list" where
  "frame_rows f = (case f of None \<Rightarrow> [] | Some d \<Rightarrow> rows d)"

text \<open>A row passes the date filter of a chunk.\<close>

definition within_chunk :: "(date \<Rightarrow> string) \<Rightarrow> date \<times> date \<Rightarrow> row \<Rightarrow> bool" where
  "within_chunk strftime chunk r =
     (case r ''acq_date'' of
        Some (Str s) \<Rightarrow> strftime (fst chunk) \<le> s \<and> s \<le> strftime (snd chunk)
      | _ \<Rightarrow> False)"

subsection \<open>Example archives\<close>

text \<open>
  An archive that answers the western sub-region of Russia (and every other bounding
  box) with a table that has a column named \<open>Error\<close>, and the central and eastern
  sub-regions with plain tables; \<open>pd.read_csv\<close> on these bodies.
\<close>

definition marked_body :: string where
  "marked_body = ''latitude,longitude,acq_date,Error\<newline>55.5,37.5,2025-03-21,0''"

definition central_body :: string where
  "central_body = ''latitude,longitude,acq_date\<newline>56.0,90.0,2025-03-22''"

definition east_body :: string where
  "east_body = ''latitude,longitude,acq_date\<newline>60.0,130.0,2025-03-21''"

definition marked_row :: row where
  "marked_row = [''latitude'' \<mapsto> Num 55.5, ''longitude'' \<mapsto> Num 37.5,
                 ''acq_date'' \<mapsto> Str ''2025-03-21'', ''Error'' \<mapsto> IntV 0]"

definition central_row :: row where
  "central_row = [''latitude'' \<mapsto> Num 56, ''longitude'' \<mapsto> Num 90,
                  ''acq_date'' \<mapsto> Str ''2025-03-22'']"

definition east_row :: row where
  "east_row = [''latitude'' \<mapsto> Num 60, ''longitude'' \<mapsto> Num 130,
               ''acq_date'' \<mapsto> Str ''2025-03-21'']"

definition region_get :: "request \<Rightarrow> http_result" where
  "region_get req =
     (if req_bbox req = central_bbox then Body central_body
      else if req_bbox req = east_bbox then Body east_body
      else Body marked_body)"

definition region_read_csv :: "string \<Rightarrow> dataframe option" where
  "region_read_csv body =
     (if body = marked_body
      then Some \<lparr>columns = [''latitude'', ''longitude'', ''acq_date'', ''Error''], rows = [marked_row]\<rparr>
      else if body = central_body
      then Some \<lparr>columns = [''latitude'', ''longitude'', ''acq_date''], rows = [central_row]\<rparr>
      else if body = east_body
      then Some \<lparr>columns = [''latitude'', ''longitude'', ''acq_date''], rows = [east_row]\<rparr>
      else None)"

text \<open>
  An archive whose tables name the acquisition date \<open>ACQ_DATE\<close> and that returns the
  same record, of 2025-03-01, for every request.
\<close>

definition upper_body :: string where
  "upper_body = ''latitude,longitude,ACQ_DATE\<newline>36.1,70.2,2025-03-01''"

definition upper_row :: row where
  "upper_row = [''latitude'' \<mapsto> Num 36.1, ''longitude'' \<mapsto> Num 70.2,
                ''ACQ_DATE'' \<mapsto> Str ''2025-03-01'']"

definition upper_get :: "request \<Rightarrow> http_result" where
  "upper_get req = Body upper_body"

definition upper_read_csv :: "string \<Rightarrow> dataframe option" where
  "upper_read_csv body =
     (if body = upper_body
      then Some \<lparr>columns = [''latitude'', ''longitude'', ''ACQ_DATE''], rows = [upper_row]\<rparr>
      else None)"

section \<open>Geofencing in \<open>fetch_fire_data\<close>\<close>

text \<open>
  The bounding box string as the code reads it: empty or \<open>None\<close> (falsy), with a part
  that \<open>float\<close> rejects (\<open>ValueError\<close>), or the list
  \<open>[float(coord) for coord in bbox.split(',')]\<close>.
\<close>

datatype bbox_parse = NoBbox | BadBbox | Coords "real list"

text \<open>
  A numeric cell as a real; a missing value (NaN) compares false with everything; a
  string or a timestamp compared with a float raises \<open>TypeError\<close>.
\<close>

definition cell_real :: "cell option \<Rightarrow> error + real option" where
  "cell_real v =
     (case v of
        None \<Rightarrow> Inr None
      | Some (Num x) \<Rightarrow> Inr (Some x)
      | Some (IntV i) \<Rightarrow> Inr (Some (real_of_int i))
      | Some _ \<Rightarrow> Inl TypeError)"

definition in_bbox :: "real \<Rightarrow> real \<Rightarrow> real \<Rightarrow> real \<Rightarrow> row \<Rightarrow> error + bool" where
  "in_bbox min_lon min_lat max_lon max_lat r =
     (case cell_real (r ''longitude'') of
        Inl e \<Rightarrow> Inl e
      | Inr lon \<Rightarrow>
          (case cell_real (r ''latitude'') of
             Inl e \<Rightarrow> Inl e
           | Inr lat \<Rightarrow>
               Inr (case (lon, lat) of
                      (Some x, Some y) \<Rightarrow>
                        x \<ge> min_lon \<and> x \<le> max_lon \<and> y \<ge> min_lat \<and> y \<le> max_lat
                    | _ \<Rightarrow> False)))"

text \<open>Lines 575-582 (and 72-79): \<open>df[bbox_mask].copy()\<close>.\<close>

definition bbox_filter :: "real \<Rightarrow> real \<Rightarrow> real \<Rightarrow> real \<Rightarrow> dataframe \<Rightarrow> error + dataframe" where
  "bbox_filter min_lon min_lat max_lon max_lat df =
     (if ''longitude'' \<notin> set (columns df) \<or> ''latitude'' \<notin> set (columns df) then Inl KeyError
      else (case mask_rows (in_bbox min_lon min_lat max_lon max_lat) (rows df) of
              Inl e \<Rightarrow> Inl e
            | Inr rs \<Rightarrow> Inr (df\<lparr>rows := rs\<rparr>)))"

text \<open>
  What lines 594-615 obtain for a country: the import of the geometry libraries fails,
  no GeoJSON is available, building the polygon raises, or a polygon, given by its
  \<open>contains\<close> test on a point (longitude, latitude).
\<close>

datatype geometry = ImportFails | Unavailable | GeometryError | Polygon "real \<times> real \<Rightarrow> bool"

text \<open>\<open>Point(row['longitude'], row['latitude'])\<close>; \<open>None\<close> when the cells are not numbers.\<close>

definition point_of :: "row \<Rightarrow> (real \<times> real) option" where
  "point_of r =
     (case (cell_real (r ''longitude''), cell_real (r ''latitude'')) of
        (Inr (Some x), Inr (Some y)) \<Rightarrow> Some (x, y)
      | _ \<Rightarrow> None)"

definition inside :: "(real \<times> real \<Rightarrow> bool) \<Rightarrow> row \<Rightarrow> bool" where
  "inside contains r = (case point_of r of Some p \<Rightarrow> contains p | None \<Rightarrow> False)"

text \<open>
  Lines 592-638, on the bbox-filtered table. An exception leaves \<open>all_results\<close> as it
  is, and so does a polygon that contains none of the points.
\<close>

definition strict_filter :: "geometry \<Rightarrow> dataframe \<Rightarrow> dataframe" where
  "strict_filter g all_results =
     (case g of
        Polygon contains \<Rightarrow>
          if list_ex (\<lambda>r. point_of r = None) (rows all_results) then all_results
          else
            (let points_in_country = filter (inside contains) (rows all_results)
             in if points_in_country \<noteq> [] then all_results\<lparr>rows := points_in_country\<rparr>
                else all_results)
      | _ \<Rightarrow> all_results)"

text \<open>
  Line 592: the strict stage runs when \<open>use_strict_country_filtering and country\<close> is
  truthy, that is, for a country that is given and not the empty string.
\<close>

definition strict_stage ::
  "bool \<Rightarrow> string option \<Rightarrow> (string \<Rightarrow> geometry) \<Rightarrow> dataframe \<Rightarrow> dataframe" where
  "strict_stage use_strict_country_filtering country get_geometry filtered_df =
     (case country of
        None \<Rightarrow> filtered_df
      | Some c \<Rightarrow>
          if use_strict_country_filtering \<and> c \<noteq> []
          then strict_filter (get_geometry c) filtered_df
          else filtered_df)"

text \<open>
  Lines 562-638. \<open>Inr None\<close> is the \<open>return None\<close> of lines 565 and 587; \<open>Inl e\<close>
  an exception that leaves \<open>fetch_fire_data\<close>.
\<close>

definition geofence ::
  "bbox_parse \<Rightarrow> bool \<Rightarrow> string option \<Rightarrow> (string \<Rightarrow> geometry) \<Rightarrow> dataframe
     \<Rightarrow> error + dataframe option" where
  "geofence bbox use_strict_country_filtering country get_geometry all_results =
     (if is_empty all_results then Inr None
      else
       (case bbox of
          NoBbox \<Rightarrow> Inr (Some all_results)
        | BadBbox \<Rightarrow> Inl ValueError
        | Coords bbox_coords \<Rightarrow>
            (case bbox_coords of
               [min_lon, min_lat, max_lon, max_lat] \<Rightarrow>
                 (case bbox_filter min_lon min_lat max_lon max_lat all_results of
                    Inl e \<Rightarrow> Inl e
                  | Inr filtered_df \<Rightarrow>
                      if length (rows filtered_df) = 0 then Inr None
                      else Inr (Some (strict_stage use_strict_country_filtering country
                                        get_geometry filtered_df)))
             | _ \<Rightarrow> Inr (Some all_results))))"

text \<open>A row lies in the bounding box.\<close>

definition row_in_bbox :: "real \<Rightarrow> real \<Rightarrow> real \<Rightarrow> real \<Rightarrow> row \<Rightarrow> bool" where
  "row_in_bbox min_lon min_lat max_lon max_lat r =
     (case point_of r of
        Some (x, y) \<Rightarrow> min_lon \<le> x \<and> x \<le> max_lon \<and> min_lat \<le> y \<and> y \<le> max_lat
      | None \<Rightarrow> False)"

subsection \<open>Example tables and geometries\<close>

definition kabul_row :: row where
  "kabul_row = [''latitude'' \<mapsto> Num 34.5, ''longitude'' \<mapsto> Num 69.2,
                ''acq_date'' \<mapsto> Str ''2025-03-21'']"

definition herat_row :: row where
  "herat_row = [''latitude'' \<mapsto> Num 34.3, ''longitude'' \<mapsto> Num 62.2,
                ''acq_date'' \<mapsto> Str ''2025-03-21'']"

definition far_row :: row where
  "far_row = [''latitude'' \<mapsto> Num 10, ''longitude'' \<mapsto> Num 10,
              ''acq_date'' \<mapsto> Str ''2025-03-22'']"

definition afghan_frame :: dataframe where
  "afghan_frame = \<lparr>columns = [''latitude'', ''longitude'', ''acq_date''],
                    rows = [kabul_row, far_row, herat_row]\<rparr>"

text \<open>Two geometries: the points west of 65 degrees east, and one that contains no point.\<close>

definition west_of_65 :: "real \<times> real \<Rightarrow> bool" where
  "west_of_65 p = (fst p \<le> 65)"

definition nowhere :: "real \<times> real \<Rightarrow> bool" where
  "nowhere p = False"

definition west_geometry :: "string \<Rightarrow> geometry" where
  "west_geometry c = Polygon west_of_65"

definition nowhere_geometry :: "string \<Rightarrow> geometry" where
  "nowhere_geometry c = Polygon nowhere"

section \<open>Density clustering\<close>

text \<open>
  \<open>sklearn.cluster.DBSCAN(eps, min_samples).fit(X).labels_\<close> with the Euclidean metric.
  The neighbourhood of a sample holds the samples at distance at most \<open>eps\<close>, itself
  included; a sample is a core sample when its neighbourhood has at least
  \<open>min_samples\<close> members. Distances are compared through their squares.
\<close>

type_synonym point = "real list"

definition sq_dist :: "point \<Rightarrow> point \<Rightarrow> real" where
  "sq_dist p q = sum_list (map (\<lambda>(a, b). (a - b)\<^sup>2) (zip p q))"

definition neighborhood :: "real \<Rightarrow> point list \<Rightarrow> nat \<Rightarrow> nat list" where
  "neighborhood eps X i = filter (\<lambda>j. sq_dist (X ! i) (X ! j) \<le> eps\<^sup>2) [0..<length X]"

text \<open>
  The depth-first search of \<open>dbscan_inner\<close> from sample \<open>i\<close>: an unlabelled sample
  takes the label, and if it is a core sample its unlabelled neighbours are pushed on
  the stack; the search ends when the stack is empty.
\<close>

definition unlabelled :: "int list \<Rightarrow> nat" where
  "unlabelled labels = length (filter (\<lambda>l. l = - 1) labels)"

function dbscan_visit ::
  "bool list \<Rightarrow> nat list list \<Rightarrow> nat \<Rightarrow> nat \<Rightarrow> nat list \<Rightarrow> int list \<Rightarrow> int list" where
  "dbscan_visit is_core neighborhoods label_num i stack labels =
     (if i < length labels \<and> labels ! i = - 1 then
        (let labels' = labels[i := int label_num];
             stack' = (if is_core ! i
                       then rev (filter (\<lambda>v. labels' ! v = - 1) (neighborhoods ! i)) @ stack
                       else stack)
         in case stack' of
              [] \<Rightarrow> labels'
            | v # rest \<Rightarrow> dbscan_visit is_core neighborhoods label_num v rest labels')
      else
        (case stack of
           [] \<Rightarrow> labels
         | v # rest \<Rightarrow> dbscan_visit is_core neighborhoods label_num v rest labels))"
  by pat_completeness auto
termination
proof (relation "inv_image (less_than <*lex*> less_than)
    (\<lambda>(is_core, neighborhoods, label_num, i, stack, labels). (unlabelled labels, length stack))",
    goal_cases)
  case 1
  show ?case by (intro wf_inv_image wf_lex_prod wf_less_than)
next
  case (2 is_core neighborhoods label_num i stack labels labels' stack' v rest)
  have "unlabelled (xs[k := int n]) < unlabelled xs"
    if "k < length xs" "xs ! k = - 1" for xs :: "int list" and k n
    using that
  proof (induction xs arbitrary: k)
    case Nil
    then show ?case by simp
  next
    case (Cons x xs)
    show ?case
    proof (cases k)
      case 0
      then show ?thesis
        using Cons.prems by (simp add: unlabelled_def)
    next
      case (Suc j)
      then have "unlabelled (xs[j := int n]) < unlabelled xs"
        using Cons.IH[of j] Cons.prems by simp
      then show ?thesis
        using Suc by (simp add: unlabelled_def)
    qed
  qed
  then have "unlabelled labels' < unlabelled labels"
    using 2 by blast
  then show ?case by simp
next
  case (3 is_core neighborhoods label_num i stack labels v rest)
  then show ?case by simp
qed

declare dbscan_visit.simps [simp del]

text \<open>
  The loop \<open>for i in range(n)\<close> of \<open>dbscan_inner\<close>: every unlabelled core sample
  starts a new cluster.
\<close>

fun dbscan_inner :: "bool list \<Rightarrow> nat list list \<Rightarrow> nat list \<Rightarrow> nat \<Rightarrow> int list \<Rightarrow> int list" where
  "dbscan_inner is_core neighborhoods [] label_num labels = labels"
| "dbscan_inner is_core neighborhoods (i # rest) label_num labels =
     (if labels ! i \<noteq> - 1 \<or> \<not> is_core ! i
      then dbscan_inner is_core neighborhoods rest label_num labels
      else dbscan_inner is_core neighborhoods rest (Suc label_num)
             (dbscan_visit is_core neighborhoods label_num i [] labels))"

text \<open>
  \<open>fit\<close> rejects \<open>eps \<le> 0\<close>, \<open>min_samples < 1\<close> and an empty input with an exception
  (a \<open>ValueError\<close>).
\<close>

definition DBSCAN_fit :: "real \<Rightarrow> int \<Rightarrow> point list \<Rightarrow> error + int list" where
  "DBSCAN_fit eps min_samples X =
     (if eps \<le> 0 \<or> min_samples < 1 \<or> X = [] then Inl ValueError
      else
        (let neighborhoods = map (neighborhood eps X) [0..<length X];
             is_core = map (\<lambda>n. int (length n) \<ge> min_samples) neighborhoods
         in Inr (dbscan_inner is_core neighborhoods [0..<length X] 0
                   (replicate (length X) (- 1)))))"

section \<open>The clusterer \<open>_apply_dbscan\<close>\<close>

text \<open>\<open>df[c] = values\<close>: the column is added if it is new, and every row takes its value.\<close>

definition assign_column :: "string \<Rightarrow> cell list \<Rightarrow> dataframe \<Rightarrow> dataframe" where
  "assign_column c vs df =
     \<lparr>columns = (if c \<in> set (columns df) then columns df else columns df @ [c]),
      rows = map (\<lambda>(r, v). r(c \<mapsto> v)) (zip (rows df) vs)\<rparr>"

text \<open>\<open>df['cluster'] = -1\<close>.\<close>

definition mark_noise :: "dataframe \<Rightarrow> dataframe" where
  "mark_noise df = assign_column ''cluster'' (replicate (length (rows df)) (IntV (- 1))) df"

text \<open>Lines 64-89: the bounding-box filter of the clusterer, which may return early.\<close>

datatype bbox_stage = Returned dataframe | Filtered dataframe

definition dbscan_bbox_stage :: "dataframe \<Rightarrow> int \<Rightarrow> bbox_parse \<Rightarrow> error + bbox_stage" where
  "dbscan_bbox_stage df min_samples bbox =
     (case bbox of
        NoBbox \<Rightarrow> Inr (Filtered df)
      | BadBbox \<Rightarrow> Inl ValueError
      | Coords bbox_coords \<Rightarrow>
          (case bbox_coords of
             [min_lon, min_lat, max_lon, max_lat] \<Rightarrow>
               (case bbox_filter min_lon min_lat max_lon max_lat df of
                  Inl e \<Rightarrow> Inl e
                | Inr filtered_df \<Rightarrow>
                    if int (length (rows filtered_df)) < min_samples
                    then Inr (Returned (mark_noise filtered_df))
                    else Inr (Filtered filtered_df))
           | _ \<Rightarrow> Inr (Filtered df)))"

text \<open>Lines 92-96: the first of the recognized date columns that the table has.\<close>

definition date_columns :: "string list" where
  "date_columns = [''acq_date'', ''date'', ''Date'', ''ACQ_DATE'']"

definition find_date_col :: "dataframe \<Rightarrow> string option" where
  "find_date_col df = find (\<lambda>col. col \<in> set (columns df)) date_columns"

text \<open>
  Lines 100-101: a column that is not \<open>datetime64[ns]\<close> is converted by
  \<open>pd.to_datetime\<close>, which leaves a timestamp as it is; \<open>to_datetime\<close> is its
  conversion of any other value (\<open>None\<close> when it raises). A missing value becomes NaT,
  which makes the input of the clustering invalid.
\<close>

definition stamp_cell :: "(cell \<Rightarrow> int option) \<Rightarrow> cell option \<Rightarrow> int option" where
  "stamp_cell to_datetime v =
     (case v of
        None \<Rightarrow> None
      | Some (Stamp t) \<Rightarrow> Some t
      | Some c \<Rightarrow> to_datetime c)"

definition ns_per_day :: int where
  "ns_per_day = 86400000000000"

text \<open>\<open>df[date_col].min()\<close>.\<close>

definition min_stamp :: "int list \<Rightarrow> int" where
  "min_stamp stamps = (case stamps of [] \<Rightarrow> 0 | t # ts \<Rightarrow> fold min ts t)"

definition day_scale :: real where
  "day_scale = 0.001"

text \<open>
  \<open>df[['latitude', 'longitude']]\<close> raises \<open>KeyError\<close> for a missing column; the
  clustering rejects an input that is not a finite number with a \<open>ValueError\<close>.
\<close>

definition number_cell :: "cell option \<Rightarrow> real option" where
  "number_cell v =
     (case v of
        Some (Num x) \<Rightarrow> Some x
      | Some (IntV i) \<Rightarrow> Some (real_of_int i)
      | _ \<Rightarrow> None)"

definition spatial_coords :: "dataframe \<Rightarrow> error + (real \<times> real) list" where
  "spatial_coords df =
     (if ''latitude'' \<notin> set (columns df) \<or> ''longitude'' \<notin> set (columns df) then Inl KeyError
      else
        (case those (map (\<lambda>r. case (number_cell (r ''latitude''), number_cell (r ''longitude'')) of
                                  (Some lat, Some lon) \<Rightarrow> Some (lat, lon)
                                | _ \<Rightarrow> None) (rows df)) of
           None \<Rightarrow> Inl ValueError
         | Some ps \<Rightarrow> Inr ps))"

text \<open>Lines 91-123: the clustering proper, with or without the temporal axis.\<close>

definition cluster_stage ::
  "(cell \<Rightarrow> int option) \<Rightarrow> dataframe \<Rightarrow> real \<Rightarrow> int \<Rightarrow> int \<Rightarrow> error + dataframe" where
  "cluster_stage to_datetime df eps min_samples max_time_diff_days =
     (case find_date_col df of
        Some date_col \<Rightarrow>
          (case those (map (\<lambda>r. stamp_cell to_datetime (r date_col)) (rows df)) of
             None \<Rightarrow> Inl ValueError
           | Some stamps \<Rightarrow>
               (let df1 = assign_column date_col (map Stamp stamps) df;
                    min_date = min_stamp stamps;
                    day_num = map (\<lambda>t. (t - min_date) div ns_per_day) stamps;
                    df2 = assign_column ''day_num'' (map IntV day_num) df1
                in case spatial_coords df2 of
                     Inl e \<Rightarrow> Inl e
                   | Inr ps \<Rightarrow>
                       (let coords = map (\<lambda>((lat, lon), d).
                                       [lat, lon,
                                        real_of_int d * day_scale * real_of_int max_time_diff_days])
                                     (zip ps day_num)
                        in case DBSCAN_fit eps min_samples coords of
                             Inl e \<Rightarrow> Inl e
                           | Inr labels \<Rightarrow> Inr (assign_column ''cluster'' (map IntV labels) df2))))
      | None \<Rightarrow>
          (case spatial_coords df of
             Inl e \<Rightarrow> Inl e
           | Inr ps \<Rightarrow>
               (let coords = map (\<lambda>(lat, lon). [lat, lon]) ps
                in case DBSCAN_fit eps min_samples coords of
                     Inl e \<Rightarrow> Inl e
                   | Inr labels \<Rightarrow> Inr (assign_column ''cluster'' (map IntV labels) df))))"

text \<open>\<open>_apply_dbscan(df, eps, min_samples, bbox, max_time_diff_days)\<close>, lines 41-132.\<close>

definition apply_dbscan ::
  "(cell \<Rightarrow> int option) \<Rightarrow> dataframe \<Rightarrow> real \<Rightarrow> int \<Rightarrow> bbox_parse \<Rightarrow> int \<Rightarrow> error + dataframe" where
  "apply_dbscan to_datetime df eps min_samples bbox max_time_diff_days =
     (if int (length (rows df)) < min_samples then Inr (mark_noise df)
      else
        (case dbscan_bbox_stage df min_samples bbox of
           Inl e \<Rightarrow> Inl e
         | Inr (Returned out) \<Rightarrow> Inr out
         | Inr (Filtered filtered_df) \<Rightarrow>
             cluster_stage to_datetime filtered_df eps min_samples max_time_diff_days))"

text \<open>The cluster labels of a result.\<close>

definition labels_of :: "error + dataframe \<Rightarrow> cell option list" where
  "labels_of res = (case res of Inl e \<Rightarrow> [] | Inr out \<Rightarrow> map (\<lambda>r. r ''cluster'') (rows out))"

subsection \<open>Example detections\<close>

text \<open>
  \<open>pd.to_datetime\<close> on the date strings of the examples, in nanoseconds since
  1970-01-01.
\<close>

definition iso_to_datetime :: "cell \<Rightarrow> int option" where
  "iso_to_datetime c =
     (case c of
        Str s \<Rightarrow>
          map_of [(''2025-03-01'', 20148 * ns_per_day), (''2025-03-02'', 20149 * ns_per_day),
                  (''2025-03-04'', 20151 * ns_per_day), (''2025-03-21'', 20168 * ns_per_day),
                  (''2025-03-22'', 20169 * ns_per_day), (''2025-04-20'', 20198 * ns_per_day)] s
      | _ \<Rightarrow> None)"

text \<open>A detection at latitude 10, longitude 20, with its date in the given column.\<close>

definition detection :: "string \<Rightarrow> string \<Rightarrow> row" where
  "detection col d = [''latitude'' \<mapsto> Num 10, ''longitude'' \<mapsto> Num 20, col \<mapsto> Str d]"

text \<open>Two detections on each of two dates, all at the same place.\<close>

definition quad_frame :: "string \<Rightarrow> string \<Rightarrow> string \<Rightarrow> dataframe" where
  "quad_frame col d1 d2 =
     \<lparr>columns = [''latitude'', ''longitude'', col],
      rows = [detection col d1, detection col d1, detection col d2, detection col d2]\<rparr>"

text \<open>
  The rows that the clusterer returns: all rows when there are fewer than
  \<open>min_samples\<close>, otherwise the rows inside the bounding box when one with four
  coordinates is given.
\<close>

definition kept_rows :: "dataframe \<Rightarrow> int \<Rightarrow> bbox_parse \<Rightarrow> row list" where
  "kept_rows df min_samples bbox =
     (if int (length (rows df)) < min_samples then rows df
      else
        (case bbox of
           Coords [min_lon, min_lat, max_lon, max_lat] \<Rightarrow>
             filter (row_in_bbox min_lon min_lat max_lon max_lat) (rows df)
         | _ \<Rightarrow> rows df))"

definition columns_of :: "error + dataframe \<Rightarrow> string list" where
  "columns_of res = (case res of Inl e \<Rightarrow> [] | Inr out \<Rightarrow> columns out)"

text \<open>
  The day offsets in the words of the specification: the whole-day difference between
  the row's acquisition date and the minimum acquisition date over all rows of the
  table.
\<close>

definition spec_day_offsets :: "(cell \<Rightarrow> int option) \<Rightarrow> string \<Rightarrow> dataframe \<Rightarrow> int list option" where
  "spec_day_offsets to_datetime date_col df =
     (case those (map (\<lambda>r. stamp_cell to_datetime (r date_col)) (rows df)) of
        None \<Rightarrow> None
      | Some stamps \<Rightarrow> Some (map (\<lambda>t. (t - Min (set stamps)) div ns_per_day) stamps))"

text \<open>The \<open>day_num\<close> cells of a result.\<close>

definition day_nums_of :: "error + dataframe \<Rightarrow> cell option list" where
  "day_nums_of res = (case res of Inl e \<Rightarrow> [] | Inr out \<Rightarrow> map (\<lambda>r. r ''day_num'') (rows out))"

text \<open>
  A table whose earliest detection, of 2025-03-01, lies outside the bounding box of the
  other two, of 2025-03-21.
\<close>

definition early_far_row :: row where
  "early_far_row = [''latitude'' \<mapsto> Num 10, ''longitude'' \<mapsto> Num 10,
                    ''acq_date'' \<mapsto> Str ''2025-03-01'']"

definition early_frame :: dataframe where
  "early_frame = \<lparr>columns = [''latitude'', ''longitude'', ''acq_date''],
                   rows = [early_far_row, kabul_row, herat_row]\<rparr>"

section \<open>Properties of the chunk plan\<close>

lemma date_chunks_loop_step:
  assumes "cur \<le> e" "1 \<le> c" "1 \<le> cur" "e + 10 \<le> date_max"
  shows "date_chunks_loop c cur e acc =
     date_chunks_loop c (min (cur + (min 10 c - 1)) e + 1) e
       (acc @ [(cur, min (cur + (min 10 c - 1)) e)])"
  using assms
  by (subst date_chunks_loop.simps) (simp add: date_add_def date_ok_def Let_def min_def)

lemma date_chunks_loop_stop:
  "\<not> cur \<le> e \<Longrightarrow> date_chunks_loop c cur e acc = Some (Inr acc)"
  by (subst date_chunks_loop.simps) simp

text \<open>
  With \<open>chunk_days = 0\<close> the loop does not return: the chunk ends the day before it
  starts and the next chunk starts on the same day again.
\<close>

lemma date_chunks_loop_zero_some:
  assumes "date_chunks_loop c cur e acc = Some r"
  shows "\<not> (c = 0 \<and> 2 \<le> cur \<and> cur \<le> e \<and> e \<le> date_max)"
proof (rule date_chunks_loop.raw_induct
    [where P = "\<lambda>c cur e acc r. \<not> (c = 0 \<and> 2 \<le> cur \<and> cur \<le> e \<and> e \<le> date_max)",
     OF _ assms])
  fix f :: "int \<Rightarrow> int \<Rightarrow> int \<Rightarrow> (int \<times> int) list \<Rightarrow> (error + (int \<times> int) list) option"
    and c cur e :: int and acc :: "(int \<times> int) list" and r :: "error + (int \<times> int) list"
  assume ih: "\<And>c cur e acc r. f c cur e acc = Some r \<Longrightarrow>
      \<not> (c = 0 \<and> 2 \<le> cur \<and> cur \<le> e \<and> e \<le> date_max)"
    and body: "(if cur \<le> e
      then case date_add cur (min 10 c - 1) of
           Inl e \<Rightarrow> Some (Inl e)
           | Inr d \<Rightarrow>
               let chunk_end = min d e
               in case date_add chunk_end 1 of Inl e \<Rightarrow> Some (Inl e)
                  | Inr next_date \<Rightarrow> f c next_date e (acc @ [(cur, chunk_end)])
      else Some (Inr acc)) = Some r"
  show "\<not> (c = 0 \<and> 2 \<le> cur \<and> cur \<le> e \<and> e \<le> date_max)"
  proof
    assume a: "c = 0 \<and> 2 \<le> cur \<and> cur \<le> e \<and> e \<le> date_max"
    then have "f c cur e (acc @ [(cur, cur - 1)]) = Some r"
      using body by (simp add: date_add_def date_ok_def min_def)
    from ih[OF this] a show False by blast
  qed
qed

lemma date_chunks_loop_zero:
  assumes "2 \<le> cur" "cur \<le> e" "e \<le> date_max"
  shows "date_chunks_loop 0 cur e acc = None"
proof (cases "date_chunks_loop 0 cur e acc")
  case None
  then show ?thesis .
next
  case (Some r)
  then show ?thesis
    using date_chunks_loop_zero_some[OF Some] assms by simp
qed

text \<open>
  The loop returns for every \<open>chunk_days \<ge> 1\<close> (no overflow, no divergence), and what
  it appends to the accumulator is a plan of the range from \<open>cur\<close> to \<open>e\<close>. The
  induction is on the number of days left.
\<close>

lemma date_chunks_loop_plan:
  assumes "1 \<le> c" "1 \<le> cur" "e + 10 \<le> date_max"
  shows "\<exists>plan. date_chunks_loop c cur e acc = Some (Inr (acc @ plan))
     \<and> (\<forall>ch \<in> set plan. cur \<le> fst ch \<and> fst ch \<le> snd ch \<and> snd ch \<le> e
            \<and> chunk_days_of ch \<le> min 10 c)
     \<and> contiguous plan
     \<and> sorted_wrt (\<lambda>a b. snd a < fst b) plan
     \<and> (plan \<noteq> [] \<longrightarrow> fst (hd plan) = cur)
     \<and> covered plan = {cur .. e}"
  using assms
proof (induction "nat (e - cur + 1)" arbitrary: cur acc rule: less_induct)
  case less
  show ?case
  proof (cases "cur \<le> e")
    case False
    then show ?thesis
      by (intro exI[of _ "[]"]) (simp add: date_chunks_loop_stop covered_def)
  next
    case True
    define ce where "ce = min (cur + (min 10 c - 1)) e"
    have ce: "cur \<le> ce" "ce \<le> e" "ce - cur + 1 \<le> min 10 c"
      using True less.prems(1) by (auto simp: ce_def min_def)
    have "nat (e - (ce + 1) + 1) < nat (e - cur + 1)"
      using ce True by simp
    from less.hyps[OF this less.prems(1) _ less.prems(3), of "acc @ [(cur, ce)]"] ce less.prems(2)
    obtain plan where p:
      "date_chunks_loop c (ce + 1) e (acc @ [(cur, ce)]) = Some (Inr ((acc @ [(cur, ce)]) @ plan))"
      "\<forall>ch \<in> set plan. ce + 1 \<le> fst ch \<and> fst ch \<le> snd ch \<and> snd ch \<le> e
          \<and> chunk_days_of ch \<le> min 10 c"
      "contiguous plan" "sorted_wrt (\<lambda>a b. snd a < fst b) plan"
      "plan \<noteq> [] \<longrightarrow> fst (hd plan) = ce + 1" "covered plan = {ce + 1 .. e}"
      by auto
    have step: "date_chunks_loop c cur e acc = Some (Inr (acc @ (cur, ce) # plan))"
      using date_chunks_loop_step[OF True less.prems, of acc] p(1) by (simp add: ce_def)
    have cont: "contiguous ((cur, ce) # plan)"
      using p(3,5) by (cases plan) auto
    have srt: "sorted_wrt (\<lambda>a b. snd a < fst b) ((cur, ce) # plan)"
      using p(2,4) by auto
    have cov: "covered ((cur, ce) # plan) = {cur .. e}"
      using p(6) ce by (auto simp: covered_def)
    have bnd: "\<forall>ch \<in> set ((cur, ce) # plan). cur \<le> fst ch \<and> fst ch \<le> snd ch \<and> snd ch \<le> e
        \<and> chunk_days_of ch \<le> min 10 c"
      using p(2) ce by (auto simp: chunk_days_of_def)
    show ?thesis
      by (intro exI[of _ "(cur, ce) # plan"] conjI step bnd cont srt cov) simp
  qed
qed

lemma resolve_request_dates:
  assumes "resolve_request avail today ds (Some s) (Some e) = Some rq"
    and "map_of avail (rq_dataset rq) = Some (min_date, max_date)"
  shows "rq_start_date rq = max (min s e) min_date"
    and "rq_end_date rq = min (max s e) max_date"
  using assms
  by (auto simp: resolve_request_def Let_def swap_dates_def clamp_dates_def parse_date_arg_def
      split: option.splits if_splits)

text \<open>
  C1 (as amended). Between the swap and the chunk loop, \<open>fetch_fire_data\<close> clamps the
  range to the availability of the effective dataset. For every pair of dates and every
  \<open>chunk_days \<ge> 1\<close> the loop returns a plan that is ordered, contiguous and
  non-overlapping, with chunks of at most \<open>min(10, chunk_days)\<close> days, and that covers
  exactly the swapped range clamped to \<open>[min_date, max_date]\<close>; this is the swapped
  range itself whenever the dataset is available on all of it. The registered
  \<open>max_date\<close> is taken to lie at least ten days before 9999-12-31, where Python's date
  arithmetic overflows.
\<close>

theorem chunk_plan_covers_clamped_range:
  assumes "1 \<le> chunk_days"
    and "resolve_request avail today ds (Some s) (Some e) = Some rq"
    and "map_of avail (rq_dataset rq) = Some (min_date, max_date)"
    and "date_ok s" and "date_ok e"
    and "max_date + 10 \<le> date_max"
  shows "\<exists>plan. date_chunks_of chunk_days (rq_start_date rq, rq_end_date rq) = Some (Inr plan)
      \<and> contiguous plan
      \<and> sorted_wrt (\<lambda>a b. snd a < fst b) plan
      \<and> (\<forall>c \<in> set plan. fst c \<le> snd c \<and> chunk_days_of c \<le> min 10 chunk_days)
      \<and> covered plan = {max (min s e) min_date .. min (max s e) max_date}
      \<and> (min_date \<le> min s e \<and> max s e \<le> max_date \<longrightarrow> covered plan = {min s e .. max s e})"
proof -
  have st: "rq_start_date rq = max (min s e) min_date"
    and en: "rq_end_date rq = min (max s e) max_date"
    using resolve_request_dates[OF assms(2,3)] by auto
  have "1 \<le> rq_start_date rq"
    using assms(4,5) by (auto simp: st date_ok_def)
  moreover have "rq_end_date rq + 10 \<le> date_max"
    using assms(6) by (simp add: en)
  ultimately obtain plan where p:
    "date_chunks_loop chunk_days (rq_start_date rq) (rq_end_date rq) [] = Some (Inr ([] @ plan))"
    "\<forall>ch \<in> set plan. rq_start_date rq \<le> fst ch \<and> fst ch \<le> snd ch \<and> snd ch \<le> rq_end_date rq
        \<and> chunk_days_of ch \<le> min 10 chunk_days"
    "contiguous plan" "sorted_wrt (\<lambda>a b. snd a < fst b) plan"
    "covered plan = {rq_start_date rq .. rq_end_date rq}"
    using date_chunks_loop_plan[OF assms(1), of "rq_start_date rq" "rq_end_date rq" "[]"] by blast
  have cov: "covered plan = {max (min s e) min_date .. min (max s e) max_date}"
    using p(5) by (simp add: st en)
  have cov': "min_date \<le> min s e \<and> max s e \<le> max_date \<longrightarrow> covered plan = {min s e .. max s e}"
    using cov by (simp add: max_def min_def)
  show ?thesis
    using p(1-4) cov cov' by (intro exI[of _ plan]) (simp add: date_chunks_of_def)
qed

theorem chunk_plan_covers_clamped_range_witness:
  "resolve_request DATASET_AVAILABILITY_fallback 739334 ''VIIRS_NOAA20_NRT'' (Some 739320) (Some 739300)
     = Some \<lparr>rq_dataset = ''VIIRS_NOAA20_SP'', rq_original_dataset = ''VIIRS_NOAA20_NRT'',
              rq_need_historical = True, rq_start_date = 739300, rq_end_date = 739320\<rparr>
   \<and> (\<exists>plan. date_chunks_of 7 (739300, 739320) = Some (Inr plan)
      \<and> contiguous plan
      \<and> sorted_wrt (\<lambda>a b. snd a < fst b) plan
      \<and> (\<forall>c \<in> set plan. fst c \<le> snd c \<and> chunk_days_of c \<le> 7)
      \<and> covered plan = {739300 .. 739320})"
proof -
  let ?rq = "\<lparr>rq_dataset = ''VIIRS_NOAA20_SP'', rq_original_dataset = ''VIIRS_NOAA20_NRT'',
              rq_need_historical = True, rq_start_date = 739300, rq_end_date = 739320\<rparr>"
  have r: "resolve_request DATASET_AVAILABILITY_fallback 739334 ''VIIRS_NOAA20_NRT''
      (Some 739320) (Some 739300) = Some ?rq"
    by (simp add: resolve_request_def DATASET_AVAILABILITY_fallback_def select_dataset_def
        swap_dates_def clamp_dates_def parse_date_arg_def starts_with_def)
  have m: "map_of DATASET_AVAILABILITY_fallback (rq_dataset ?rq) = Some (736785, 739334)"
    by (simp add: DATASET_AVAILABILITY_fallback_def)
  have d: "date_ok 739320" "date_ok 739300" "(739334::int) + 10 \<le> date_max"
    by (simp_all add: date_ok_def date_max_def)
  show ?thesis
    using r chunk_plan_covers_clamped_range[OF _ r m d, of 7] by simp
qed

text \<open>
  The claim as stated fails where the request leaves the dataset's availability: a
  request for 2018-03-25 to 2018-04-05 made on 2025-03-24 is served from
  \<open>VIIRS_NOAA20_SP\<close>, available from 2018-04-01, and the plan covers only
  2018-04-01 to 2018-04-05.
\<close>

theorem chunk_plan_input_range_counterexample:
  "resolve_request DATASET_AVAILABILITY_fallback 739334 ''VIIRS_NOAA20_NRT'' (Some 736778) (Some 736789)
     = Some \<lparr>rq_dataset = ''VIIRS_NOAA20_SP'', rq_original_dataset = ''VIIRS_NOAA20_NRT'',
              rq_need_historical = True, rq_start_date = 736785, rq_end_date = 736789\<rparr>
   \<and> date_chunks_of 7 (736785, 736789) = Some (Inr [(736785, 736789)])
   \<and> covered [(736785, 736789)] \<noteq> {min 736778 736789 .. max 736778 736789}"
proof (intro conjI)
  show "resolve_request DATASET_AVAILABILITY_fallback 739334 ''VIIRS_NOAA20_NRT''
      (Some 736778) (Some 736789)
     = Some \<lparr>rq_dataset = ''VIIRS_NOAA20_SP'', rq_original_dataset = ''VIIRS_NOAA20_NRT'',
              rq_need_historical = True, rq_start_date = 736785, rq_end_date = 736789\<rparr>"
    by (simp add: resolve_request_def DATASET_AVAILABILITY_fallback_def select_dataset_def
        swap_dates_def clamp_dates_def parse_date_arg_def starts_with_def)
  show "date_chunks_of 7 (736785, 736789) = Some (Inr [(736785, 736789)])"
    by (simp add: date_chunks_of_def date_chunks_loop.simps date_add_def date_ok_def date_max_def)
  show "covered [(736785, 736789)] \<noteq> {min 736778 736789 .. max 736778 736789}"
    by (simp add: covered_def)
qed

section \<open>Dataset selection and the probe\<close>

text \<open>
  C6 (as amended). The staleness test of line 211 runs after the swap of lines 206-208,
  so the request is historical iff today is more than 30 days after the earlier of the
  two dates; for a start date that is not after the end date this is the start date.
  When historical and the identifier contains \<open>_NRT\<close>, the identifier with \<open>_NRT\<close>
  replaced by \<open>_SP\<close> is used if registered, and \<open>VIIRS_SNPP_SP\<close> otherwise; in every
  other case the requested identifier is kept.
\<close>

theorem historical_dataset_selection:
  assumes "resolve_request avail today ds (Some s) (Some e) = Some rq"
  shows "rq_need_historical rq = (today - min s e > 30)
     \<and> (s \<le> e \<longrightarrow> rq_need_historical rq = (today - s > 30))
     \<and> rq_dataset rq =
         (if rq_need_historical rq \<and> contains_str ''_NRT'' ds
          then (if map_of avail (replace_str ''_NRT'' ''_SP'' ds) \<noteq> None
                then replace_str ''_NRT'' ''_SP'' ds else ''VIIRS_SNPP_SP'')
          else ds)"
  using assms
  by (auto simp: resolve_request_def Let_def swap_dates_def parse_date_arg_def select_dataset_def
      split: option.splits if_splits)

theorem historical_dataset_selection_witness:
  "resolve_request DATASET_AVAILABILITY_fallback 739334 ''VIIRS_NOAA21_NRT'' (Some 739300) (Some 739320)
     = Some \<lparr>rq_dataset = ''VIIRS_SNPP_SP'', rq_original_dataset = ''VIIRS_NOAA21_NRT'',
              rq_need_historical = True, rq_start_date = 739300, rq_end_date = 739320\<rparr>
   \<and> replace_str ''_NRT'' ''_SP'' ''VIIRS_NOAA21_NRT'' = ''VIIRS_NOAA21_SP''
   \<and> map_of DATASET_AVAILABILITY_fallback ''VIIRS_NOAA21_SP'' = None
   \<and> (739334 - 739300 > (30::int))"
proof -
  let ?rq = "\<lparr>rq_dataset = ''VIIRS_SNPP_SP'', rq_original_dataset = ''VIIRS_NOAA21_NRT'',
              rq_need_historical = True, rq_start_date = 739300, rq_end_date = 739320\<rparr>"
  have r: "resolve_request DATASET_AVAILABILITY_fallback 739334 ''VIIRS_NOAA21_NRT''
      (Some 739300) (Some 739320) = Some ?rq"
    by (simp add: resolve_request_def DATASET_AVAILABILITY_fallback_def select_dataset_def
        swap_dates_def clamp_dates_def parse_date_arg_def starts_with_def)
  have "replace_str ''_NRT'' ''_SP'' ''VIIRS_NOAA21_NRT'' = ''VIIRS_NOAA21_SP''"
    by (simp add: starts_with_def)
  moreover have "map_of DATASET_AVAILABILITY_fallback ''VIIRS_NOAA21_SP'' = None"
    by (simp add: DATASET_AVAILABILITY_fallback_def)
  ultimately show ?thesis
    using r historical_dataset_selection[OF r] by simp
qed

text \<open>
  With the start after the end the claim as stated fails: a request from 2025-03-24
  back to 2024-12-14, made on 2025-03-24, is historical, although its start date is
  today.
\<close>

theorem historical_swapped_counterexample:
  "resolve_request DATASET_AVAILABILITY_fallback 739334 ''VIIRS_NOAA20_NRT'' (Some 739334) (Some 739234)
     = Some \<lparr>rq_dataset = ''VIIRS_NOAA20_SP'', rq_original_dataset = ''VIIRS_NOAA20_NRT'',
              rq_need_historical = True, rq_start_date = 739234, rq_end_date = 739334\<rparr>
   \<and> \<not> (739334 - 739334 > (30::int))"
  by (simp add: resolve_request_def DATASET_AVAILABILITY_fallback_def select_dataset_def
      swap_dates_def clamp_dates_def parse_date_arg_def starts_with_def)

text \<open>
  C7 (as amended). When the probe on the substituted dataset parses to zero records and
  a substitution occurred, the original dataset is queried exactly once if the end of
  the requested window is less than 30 days before today
  (\<open>(end_date_date - today).days > -30\<close>), and not at all otherwise. The availability
  of the original dataset is not consulted.
\<close>

theorem probe_requeries_original_once:
  assumes "session_get (rq_dataset rq) = Body body"
    and "valid_text body"
    and "read_csv body = Some test_df"
    and "rows test_df = []"
    and "rq_need_historical rq"
    and "rq_dataset rq \<noteq> rq_original_dataset rq"
  shows "pr_queried (probe session_get read_csv rq today) =
           (if rq_end_date rq - today > - 30
            then [rq_dataset rq, rq_original_dataset rq] else [rq_dataset rq])
     \<and> count_list (pr_queried (probe session_get read_csv rq today)) (rq_original_dataset rq) =
           (if rq_end_date rq - today > - 30 then 1 else 0)"
  using assms
  by (auto simp: probe_def Let_def split: http_result.splits option.splits)

theorem probe_requeries_original_once_witness:
  "valid_text ''latitude,longitude,acq_date''
   \<and> pr_queried (probe header_only_get header_only_read_csv
         \<lparr>rq_dataset = ''VIIRS_NOAA20_SP'', rq_original_dataset = ''VIIRS_NOAA20_NRT'',
          rq_need_historical = True, rq_start_date = 739294, rq_end_date = 739334\<rparr> 739334)
       = [''VIIRS_NOAA20_SP'', ''VIIRS_NOAA20_NRT'']
   \<and> pr_queried (probe header_only_get header_only_read_csv
         \<lparr>rq_dataset = ''VIIRS_NOAA20_SP'', rq_original_dataset = ''VIIRS_NOAA20_NRT'',
          rq_need_historical = True, rq_start_date = 739294, rq_end_date = 739300\<rparr> 739334)
       = [''VIIRS_NOAA20_SP'']"
proof -
  let ?rq = "\<lparr>rq_dataset = ''VIIRS_NOAA20_SP'', rq_original_dataset = ''VIIRS_NOAA20_NRT'',
               rq_need_historical = True, rq_start_date = 739294, rq_end_date = 739334\<rparr>"
  let ?rq' = "\<lparr>rq_dataset = ''VIIRS_NOAA20_SP'', rq_original_dataset = ''VIIRS_NOAA20_NRT'',
               rq_need_historical = True, rq_start_date = 739294, rq_end_date = 739300\<rparr>"
  have v: "valid_text ''latitude,longitude,acq_date''"
    by (simp add: valid_text_def strip_nonempty_def is_space_def starts_with_def)
  have g: "header_only_get ds = Body ''latitude,longitude,acq_date''" for ds
    by (simp add: header_only_get_def)
  have c: "header_only_read_csv ''latitude,longitude,acq_date''
      = Some \<lparr>columns = [''latitude'', ''longitude'', ''acq_date''], rows = []\<rparr>"
    by (simp add: header_only_read_csv_def)
  have a: "pr_queried (probe header_only_get header_only_read_csv ?rq 739334)
      = [''VIIRS_NOAA20_SP'', ''VIIRS_NOAA20_NRT'']"
    using probe_requeries_original_once[where session_get = header_only_get and rq = "?rq"
        and today = 739334 and read_csv = header_only_read_csv
        and body = "''latitude,longitude,acq_date''", OF g v c] by simp
  have b: "pr_queried (probe header_only_get header_only_read_csv ?rq' 739334) = [''VIIRS_NOAA20_SP'']"
    using probe_requeries_original_once[where session_get = header_only_get and rq = "?rq'"
        and today = 739334 and read_csv = header_only_read_csv
        and body = "''latitude,longitude,acq_date''", OF g v c] by simp
  show ?thesis
    using v a b by simp
qed

text \<open>
  The claim as stated fails: on 2025-07-02 a request for 2025-03-20 to 2025-03-22 on
  \<open>VIIRS_NOAA20_NRT\<close> is served from \<open>VIIRS_NOAA20_SP\<close>; the original dataset's
  \<open>max_date\<close>, 2025-03-24, is two days from the window, yet an empty probe is not
  followed by a query of the original dataset.
\<close>

theorem probe_max_date_counterexample:
  "resolve_request DATASET_AVAILABILITY_fallback 739434 ''VIIRS_NOAA20_NRT''
       (Some 739330) (Some 739332)
     = Some \<lparr>rq_dataset = ''VIIRS_NOAA20_SP'', rq_original_dataset = ''VIIRS_NOAA20_NRT'',
              rq_need_historical = True, rq_start_date = 739330, rq_end_date = 739332\<rparr>
   \<and> original_max_date_within_30_days_of_window DATASET_AVAILABILITY_fallback
        \<lparr>rq_dataset = ''VIIRS_NOAA20_SP'', rq_original_dataset = ''VIIRS_NOAA20_NRT'',
         rq_need_historical = True, rq_start_date = 739330, rq_end_date = 739332\<rparr>
   \<and> pr_queried (probe header_only_get header_only_read_csv
         \<lparr>rq_dataset = ''VIIRS_NOAA20_SP'', rq_original_dataset = ''VIIRS_NOAA20_NRT'',
          rq_need_historical = True, rq_start_date = 739330, rq_end_date = 739332\<rparr> 739434)
       = [''VIIRS_NOAA20_SP'']"
  by (simp add: resolve_request_def DATASET_AVAILABILITY_fallback_def select_dataset_def
      swap_dates_def clamp_dates_def parse_date_arg_def starts_with_def
      original_max_date_within_30_days_of_window_def probe_def valid_text_def strip_nonempty_def
      is_space_def header_only_get_def header_only_read_csv_def Let_def)

text \<open>
  A body of whitespace alone, also of the no-break space U+00A0 or the next-line
  character U+0085, is stripped to the empty string: the response is invalid
  (line 311) and the original dataset is not queried.
\<close>

lemma whitespace_body_not_valid:
  "\<not> valid_text [CHR 0xA0]" "\<not> valid_text [CHR 0x85, CHR 0x20, CHR 0x0A, CHR 0xA0]"
  "valid_text [CHR 0xA0, CHR ''a'']"
  by (simp_all add: valid_text_def strip_nonempty_def is_space_def starts_with_def)

lemma probe_invalid_body:
  assumes "session_get (rq_dataset rq) = Body body" and "\<not> valid_text body"
  shows "probe session_get read_csv rq today
           = \<lparr>pr_dataset = rq_dataset rq, pr_abort = False, pr_queried = [rq_dataset rq]\<rparr>"
  using assms by (simp add: probe_def Let_def)

section \<open>Fetching: failures and date bounds\<close>

lemmas strftime_ymd_defs =
  strftime_ymd_def ord2ymd_def zero_pad4_def zero_pad2_def digit_char_def
  days_before_month_def days_in_month_def Let_def

lemma strftime_ymd_examples:
  "strftime_ymd 739330 = ''2025-03-20''" "strftime_ymd 739332 = ''2025-03-22''"
  "strftime_ymd 739333 = ''2025-03-23''" "strftime_ymd 739335 = ''2025-03-25''"
  by (simp_all add: strftime_ymd_defs)

lemma rows_add_chunk: "rows (add_chunk a f) = rows a @ frame_rows f"
  by (simp add: add_chunk_def frame_rows_def concat_frames_def split: option.splits)

lemma standard_loop_rows:
  "rows (standard_loop session_get read_csv strftime url i chunks all_results) =
     rows all_results @
     concat (map (\<lambda>(k, chunk). frame_rows
                    (standard_chunk_frame read_csv strftime chunk (session_get (url k chunk))))
                 (enumerate i chunks))"
  by (induction chunks arbitrary: i all_results) (simp_all add: rows_add_chunk)

lemma russia_loop_rows:
  "rows (russia_loop session_get read_csv strftime url chunks all_results) =
     rows all_results @
     concat (map (\<lambda>chunk. frame_rows
                    (russia_chunk_frame read_csv strftime chunk (session_get (url chunk)))) chunks)"
  by (induction chunks arbitrary: all_results) (simp_all add: rows_add_chunk)

text \<open>
  On the standard paths (normal countries and the large countries other than Russia) a
  failed chunk contributes nothing and the aggregate is the concatenation, in order, of
  what the chunks contribute: a failure never discards the rows of another chunk.
\<close>

lemma standard_failed_chunk_skipped:
  "chunk_failed response \<Longrightarrow> standard_chunk_frame read_csv strftime chunk response = None"
  by (auto simp: chunk_failed_def standard_chunk_frame_def split: http_result.splits)

lemma fetch_chunks_standard_rows:
  assumes "country \<noteq> Some ''Russia''"
  shows "rows (fetch_chunks session_get read_csv strftime country nh ds orig bbox date_chunks) =
     concat (map (\<lambda>(k, chunk). frame_rows (standard_chunk_frame read_csv strftime chunk
                    (session_get (standard_request nh ds orig bbox strftime (length date_chunks) k chunk))))
                 (enumerate 0 date_chunks))"
  using assms
  by (auto simp: fetch_chunks_def Let_def standard_loop_rows empty_frame_def split: option.splits)

text \<open>
  C2. On the Russia paths the validity test of lines 403, 431 and 459 looks for
  \<open>Invalid\<close> only, where the standard paths (lines 499 and 542) also look for
  \<open>Error\<close>. A body with the marker \<open>Error\<close> that parses to records of the chunk is
  therefore not skipped for a sub-region of Russia: here the western sub-region answers
  with such a body, the other two succeed, and the aggregate holds the record of the
  failed fetch as well. The same body is skipped on a standard path.
\<close>

theorem russia_error_marker_chunk_not_skipped:
  "chunk_failed (region_get (russia_request ''VIIRS_NOAA20_NRT'' west_bbox strftime_ymd (739330, 739332)))
   \<and> rows (fetch_chunks region_get region_read_csv strftime_ymd (Some ''Russia'') False
        ''VIIRS_NOAA20_NRT'' ''VIIRS_NOAA20_NRT'' ''19.25,41.151,180.0,81.2'' [(739330, 739332)])
      = [marked_row, central_row, east_row]
   \<and> rows (fetch_chunks region_get region_read_csv strftime_ymd (Some ''Canada'') False
        ''VIIRS_NOAA20_NRT'' ''VIIRS_NOAA20_NRT'' ''-141.0,41.7,-52.6,83.1'' [(739330, 739332)])
      = []"
proof (intro conjI)
  show "chunk_failed (region_get
      (russia_request ''VIIRS_NOAA20_NRT'' west_bbox strftime_ymd (739330, 739332)))"
    by (simp add: chunk_failed_def region_get_def russia_request_def west_bbox_def
        central_bbox_def east_bbox_def marked_body_def starts_with_def)
  show "rows (fetch_chunks region_get region_read_csv strftime_ymd (Some ''Russia'') False
        ''VIIRS_NOAA20_NRT'' ''VIIRS_NOAA20_NRT'' ''19.25,41.151,180.0,81.2'' [(739330, 739332)])
      = [marked_row, central_row, east_row]"
    by (simp add: fetch_chunks_def large_countries_def russia_request_def region_get_def
        west_bbox_def central_bbox_def east_bbox_def add_chunk_def russia_chunk_frame_def
        marked_body_def central_body_def east_body_def strip_nonempty_def is_space_def
        starts_with_def region_read_csv_def is_empty_def date_filter_def date_in_chunk_def
        strftime_ymd_examples marked_row_def central_row_def east_row_def concat_frames_def
        empty_frame_def)
  show "rows (fetch_chunks region_get region_read_csv strftime_ymd (Some ''Canada'') False
        ''VIIRS_NOAA20_NRT'' ''VIIRS_NOAA20_NRT'' ''-141.0,41.7,-52.6,83.1'' [(739330, 739332)])
      = []"
    by (simp add: fetch_chunks_def large_countries_def standard_request_def region_get_def
        west_bbox_def central_bbox_def east_bbox_def add_chunk_def standard_chunk_frame_def
        marked_body_def strip_nonempty_def is_space_def starts_with_def empty_frame_def)
qed

lemma mask_rows_sound:
  "mask_rows p rs = Inr rs' \<Longrightarrow> r \<in> set rs' \<Longrightarrow> p r = Inr True \<and> r \<in> set rs"
proof (induction rs arbitrary: rs')
  case Nil
  then show ?case by simp
next
  case (Cons a rs)
  then show ?case
    by (auto split: sum.splits if_splits)
qed

lemma date_filter_within:
  assumes "date_filter strftime chunk chunk_df = Inr filtered_chunk"
    and "r \<in> set (rows filtered_chunk)"
  shows "within_chunk strftime chunk r"
proof -
  obtain rs where rs: "mask_rows (date_in_chunk (strftime (fst chunk)) (strftime (snd chunk)))
      (rows chunk_df) = Inr rs" "filtered_chunk = chunk_df\<lparr>rows := rs\<rparr>"
    using assms(1) by (auto simp: date_filter_def split: if_splits sum.splits)
  then have "date_in_chunk (strftime (fst chunk)) (strftime (snd chunk)) r = Inr True"
    using mask_rows_sound[OF rs(1), of r] assms(2) by simp
  then show ?thesis
    by (auto simp: date_in_chunk_def within_chunk_def split: option.splits cell.splits)
qed

lemma within_disjoint_chunks:
  assumes "within_chunk strftime chunk r"
    and "strftime (snd chunk) < strftime (fst chunk') \<or> strftime (snd chunk') < strftime (fst chunk)"
  shows "\<not> within_chunk strftime chunk' r"
  using assms
  by (auto simp: within_chunk_def split: option.splits cell.splits)

text \<open>
  C8 (as amended). For a parsed chunk response that has an \<open>acq_date\<close> column, every
  row concatenated into the aggregate has its \<open>acq_date\<close> within the chunk's bounds,
  compared as \<open>%Y-%m-%d\<close> strings; on the Russia paths this holds for whatever is
  concatenated. Such a row does not pass the filter of any other chunk that lies wholly
  before or after this one (the formatted bounds being ordered as the dates are), so no
  row is contributed by two chunks of a plan.
\<close>

theorem chunk_rows_within_bounds:
  assumes "\<forall>body df. response = Body body \<and> read_csv body = Some df
             \<longrightarrow> ''acq_date'' \<in> set (columns df)"
    and "r \<in> set (frame_rows (standard_chunk_frame read_csv strftime chunk response))
         \<or> r \<in> set (frame_rows (russia_chunk_frame read_csv strftime chunk response))"
  shows "within_chunk strftime chunk r
     \<and> (\<forall>chunk'. (snd chunk < fst chunk' \<and> strftime (snd chunk) < strftime (fst chunk'))
                 \<or> (snd chunk' < fst chunk \<and> strftime (snd chunk') < strftime (fst chunk))
          \<longrightarrow> \<not> within_chunk strftime chunk' r)"
proof -
  have "within_chunk strftime chunk r"
    using assms
    by (auto simp: standard_chunk_frame_def russia_chunk_frame_def frame_rows_def
        split: http_result.splits option.splits if_splits sum.splits
        dest: date_filter_within)
  then show ?thesis
    using within_disjoint_chunks[of strftime chunk r] by blast
qed

theorem chunk_rows_within_bounds_witness:
  "frame_rows (standard_chunk_frame region_read_csv strftime_ymd (739330, 739332) (Body central_body))
     = [central_row]
   \<and> within_chunk strftime_ymd (739330, 739332) central_row
   \<and> strftime_ymd 739332 < strftime_ymd 739333
   \<and> \<not> within_chunk strftime_ymd (739333, 739335) central_row"
proof -
  have f: "frame_rows (standard_chunk_frame region_read_csv strftime_ymd (739330, 739332)
      (Body central_body)) = [central_row]"
    by (simp add: standard_chunk_frame_def central_body_def marked_body_def strip_nonempty_def
        is_space_def starts_with_def region_read_csv_def is_empty_def date_filter_def
        date_in_chunk_def strftime_ymd_examples central_row_def frame_rows_def)
  have c: "\<forall>body df. Body central_body = Body body \<and> region_read_csv body = Some df
      \<longrightarrow> ''acq_date'' \<in> set (columns df)"
    by (simp add: region_read_csv_def central_body_def marked_body_def)
  have m: "strftime_ymd 739332 < strftime_ymd 739333"
    by (simp add: strftime_ymd_examples)
  have "within_chunk strftime_ymd (739330, 739332) central_row
     \<and> (\<forall>chunk'. (snd (739330::int, 739332::int) < fst chunk'
                    \<and> strftime_ymd (snd (739330::int, 739332::int)) < strftime_ymd (fst chunk'))
                 \<or> (snd chunk' < fst (739330::int, 739332::int)
                    \<and> strftime_ymd (snd chunk') < strftime_ymd (fst (739330::int, 739332::int)))
          \<longrightarrow> \<not> within_chunk strftime_ymd chunk' central_row)"
    using chunk_rows_within_bounds[where response = "Body central_body"
        and read_csv = region_read_csv and strftime = strftime_ymd
        and chunk = "(739330, 739332)" and r = central_row, OF c] f
    by simp
  then have "within_chunk strftime_ymd (739330, 739332) central_row
     \<and> \<not> within_chunk strftime_ymd (739333, 739335) central_row"
    using m by fastforce
  then show ?thesis
    using f m by simp
qed

text \<open>
  The claim as stated fails for a parsed response without an \<open>acq_date\<close> column, which
  the standard paths concatenate unfiltered (lines 553-554): an archive that names the
  column \<open>ACQ_DATE\<close> and returns a record of 2025-03-01 for both chunks of the plan
  2025-03-20..22, 2025-03-23..25 contributes it twice.
\<close>

theorem unfiltered_chunk_counterexample:
  "rows (fetch_chunks upper_get upper_read_csv strftime_ymd (Some ''Afghanistan'') True
        ''VIIRS_NOAA20_SP'' ''VIIRS_NOAA20_NRT'' ''60.52,29.31,75.15,38.48''
        [(739330, 739332), (739333, 739335)])
      = [upper_row, upper_row]
   \<and> upper_row ''ACQ_DATE'' = Some (Str ''2025-03-01'')
   \<and> ''2025-03-01'' < strftime_ymd 739330"
  by (simp add: fetch_chunks_def large_countries_def standard_request_def upper_get_def
      add_chunk_def standard_chunk_frame_def upper_body_def strip_nonempty_def is_space_def
      starts_with_def upper_read_csv_def is_empty_def concat_frames_def empty_frame_def
      upper_row_def strftime_ymd_examples)

section \<open>Geofencing\<close>

lemma in_bbox_row:
  "in_bbox a b c d r = Inr True \<Longrightarrow> row_in_bbox a b c d r"
  by (auto simp: in_bbox_def row_in_bbox_def point_of_def split: sum.splits option.splits)

lemma bbox_filter_rows:
  assumes "bbox_filter a b c d df = Inr f" "r \<in> set (rows f)"
  shows "row_in_bbox a b c d r \<and> r \<in> set (rows df)"
proof -
  obtain rs where rs: "mask_rows (in_bbox a b c d) (rows df) = Inr rs" "f = df\<lparr>rows := rs\<rparr>"
    using assms(1) by (auto simp: bbox_filter_def split: if_splits sum.splits)
  then show ?thesis
    using mask_rows_sound[OF rs(1), of r] assms(2) in_bbox_row by simp
qed

lemma strict_filter_subset: "set (rows (strict_filter g df)) \<subseteq> set (rows df)"
  by (auto simp: strict_filter_def Let_def split: geometry.splits)

lemma strict_filter_polygon:
  assumes "\<forall>r \<in> set (rows df). point_of r \<noteq> None"
  shows "strict_filter (Polygon contains) df =
     (if \<exists>r \<in> set (rows df). inside contains r
      then df\<lparr>rows := filter (inside contains) (rows df)\<rparr> else df)"
  using assms
  by (auto simp: strict_filter_def Let_def list_ex_iff filter_empty_conv)

lemma strict_stage_subset: "set (rows (strict_stage s country g df)) \<subseteq> set (rows df)"
  using strict_filter_subset by (auto simp: strict_stage_def split: option.splits)

lemma strict_filter_nonempty: "rows df \<noteq> [] \<Longrightarrow> rows (strict_filter g df) \<noteq> []"
  by (auto simp: strict_filter_def Let_def split: geometry.splits)

lemma strict_stage_nonempty: "rows df \<noteq> [] \<Longrightarrow> rows (strict_stage s country g df) \<noteq> []"
  by (auto simp: strict_stage_def strict_filter_nonempty split: option.splits)

lemma geofence_bbox_only:
  "geofence (Coords [a, b, c, d]) False country g all_results = Inr (Some bb) \<longleftrightarrow>
     \<not> is_empty all_results \<and> bbox_filter a b c d all_results = Inr bb \<and> rows bb \<noteq> []"
  by (auto simp: geofence_def strict_stage_def split: sum.splits option.splits)

lemma geofence_strict:
  "geofence (Coords [a, b, c, d]) strict country g all_results = Inr (Some out) \<longleftrightarrow>
     (\<exists>bb. \<not> is_empty all_results \<and> bbox_filter a b c d all_results = Inr bb \<and> rows bb \<noteq> []
           \<and> out = strict_stage strict country g bb)"
  by (auto simp: geofence_def split: sum.splits)

text \<open>
  C5. Every row of the geofenced table lies in the bounding box. With strict filtering,
  a country and a polygon for it, the output is the bbox-filtered table restricted to
  the rows inside the polygon, unless no row is inside, in which case it is the
  bbox-filtered table itself. Whenever the bbox-only filter returns a table, which
  then is not empty, the strict run returns a table too, not empty and made of rows of
  the bbox-filtered table: strict filtering never empties the result.
\<close>

theorem geofence_containment:
  "(\<forall>out. geofence (Coords [min_lon, min_lat, max_lon, max_lat]) strict country get_geometry
             all_results = Inr (Some out)
      \<longrightarrow> (\<forall>r \<in> set (rows out). row_in_bbox min_lon min_lat max_lon max_lat r)
        \<and> (\<exists>bb. geofence (Coords [min_lon, min_lat, max_lon, max_lat]) False country get_geometry
                   all_results = Inr (Some bb)
              \<and> rows bb \<noteq> []
              \<and> (\<forall>c contains. strict \<and> country = Some c \<and> c \<noteq> []
                    \<and> get_geometry c = Polygon contains
                    \<longrightarrow> (if \<exists>r \<in> set (rows bb). inside contains r
                         then rows out = filter (inside contains) (rows bb)
                            \<and> (\<forall>r \<in> set (rows out). inside contains r)
                         else out = bb))))
   \<and> (\<forall>bb. geofence (Coords [min_lon, min_lat, max_lon, max_lat]) False country get_geometry
             all_results = Inr (Some bb)
      \<longrightarrow> rows bb \<noteq> []
        \<and> (\<exists>out. geofence (Coords [min_lon, min_lat, max_lon, max_lat]) strict country
                    get_geometry all_results = Inr (Some out)
              \<and> rows out \<noteq> []
              \<and> set (rows out) \<subseteq> set (rows bb)))"
proof (intro conjI allI impI)
  fix out
  assume a: "geofence (Coords [min_lon, min_lat, max_lon, max_lat]) strict country get_geometry
             all_results = Inr (Some out)"
  then obtain bb where bb: "bbox_filter min_lon min_lat max_lon max_lat all_results = Inr bb"
    "rows bb \<noteq> []" "\<not> is_empty all_results"
    "out = strict_stage strict country get_geometry bb"
    by (auto simp: geofence_strict)
  have inb: "\<forall>r \<in> set (rows bb). row_in_bbox min_lon min_lat max_lon max_lat r"
    using bbox_filter_rows[OF bb(1)] by blast
  then have pts: "\<forall>r \<in> set (rows bb). point_of r \<noteq> None"
    by (auto simp: row_in_bbox_def split: option.splits)
  show "\<forall>r \<in> set (rows out). row_in_bbox min_lon min_lat max_lon max_lat r"
    using inb strict_stage_subset[of strict country get_geometry bb] bb(4) by blast
  have 2: "geofence (Coords [min_lon, min_lat, max_lon, max_lat]) False country get_geometry
      all_results = Inr (Some bb)"
    using bb(1-3) by (simp add: geofence_bbox_only)
  have 3: "if \<exists>r \<in> set (rows bb). inside contains r
           then rows out = filter (inside contains) (rows bb)
              \<and> (\<forall>r \<in> set (rows out). inside contains r)
           else out = bb"
    if "strict" "country = Some c" "c \<noteq> []" "get_geometry c = Polygon contains" for c contains
    using that bb(4) strict_filter_polygon[OF pts, of contains]
    by (auto simp: strict_stage_def)
  show "\<exists>bb. geofence (Coords [min_lon, min_lat, max_lon, max_lat]) False country get_geometry
                   all_results = Inr (Some bb)
              \<and> rows bb \<noteq> []
              \<and> (\<forall>c contains. strict \<and> country = Some c \<and> c \<noteq> []
                    \<and> get_geometry c = Polygon contains
                    \<longrightarrow> (if \<exists>r \<in> set (rows bb). inside contains r
                         then rows out = filter (inside contains) (rows bb)
                            \<and> (\<forall>r \<in> set (rows out). inside contains r)
                         else out = bb))"
    using 2 3 bb(2) by blast
next
  fix bb
  assume b: "geofence (Coords [min_lon, min_lat, max_lon, max_lat]) False country get_geometry
             all_results = Inr (Some bb)"
  then have bb: "\<not> is_empty all_results"
    "bbox_filter min_lon min_lat max_lon max_lat all_results = Inr bb" "rows bb \<noteq> []"
    by (simp_all add: geofence_bbox_only)
  show "rows bb \<noteq> []"
    by (rule bb(3))
  have "geofence (Coords [min_lon, min_lat, max_lon, max_lat]) strict country get_geometry
      all_results = Inr (Some (strict_stage strict country get_geometry bb))"
    using bb by (auto simp: geofence_strict)
  then show "\<exists>out. geofence (Coords [min_lon, min_lat, max_lon, max_lat]) strict country
                    get_geometry all_results = Inr (Some out)
              \<and> rows out \<noteq> []
              \<and> set (rows out) \<subseteq> set (rows bb)"
    using strict_stage_nonempty[OF bb(3)] strict_stage_subset by blast
qed

theorem geofence_containment_witness:
  "geofence (Coords [60.52, 29.31, 75.15, 38.48]) True (Some ''Afghanistan'') west_geometry
       afghan_frame = Inr (Some (afghan_frame\<lparr>rows := [herat_row]\<rparr>))
   \<and> row_in_bbox 60.52 29.31 75.15 38.48 herat_row
   \<and> inside west_of_65 herat_row
   \<and> geofence (Coords [60.52, 29.31, 75.15, 38.48]) False (Some ''Afghanistan'') west_geometry
       afghan_frame = Inr (Some (afghan_frame\<lparr>rows := [kabul_row, herat_row]\<rparr>))
   \<and> geofence (Coords [60.52, 29.31, 75.15, 38.48]) True (Some ''Afghanistan'') nowhere_geometry
       afghan_frame = Inr (Some (afghan_frame\<lparr>rows := [kabul_row, herat_row]\<rparr>))
   \<and> geofence (Coords [60.52, 29.31, 75.15, 38.48]) False (Some ''Afghanistan'') nowhere_geometry
       afghan_frame = Inr (Some (afghan_frame\<lparr>rows := [kabul_row, herat_row]\<rparr>))
   \<and> (\<exists>out. geofence (Coords [60.52, 29.31, 75.15, 38.48]) True (Some ''Afghanistan'')
          nowhere_geometry afghan_frame = Inr (Some out) \<and> rows out \<noteq> [])"
proof -
  have cells:
    "kabul_row ''longitude'' = Some (Num 69.2)" "kabul_row ''latitude'' = Some (Num 34.5)"
    "herat_row ''longitude'' = Some (Num 62.2)" "herat_row ''latitude'' = Some (Num 34.3)"
    "far_row ''longitude'' = Some (Num 10)" "far_row ''latitude'' = Some (Num 10)"
    by (simp_all add: kabul_row_def herat_row_def far_row_def)
  have points:
    "point_of kabul_row = Some (69.2, 34.5)" "point_of herat_row = Some (62.2, 34.3)"
    by (simp_all add: point_of_def cell_real_def cells)
  note defs = geofence_def is_empty_def afghan_frame_def bbox_filter_def in_bbox_def cell_real_def
    cells strict_stage_def strict_filter_def points
    inside_def west_geometry_def west_of_65_def nowhere_geometry_def nowhere_def
  have a: "geofence (Coords [60.52, 29.31, 75.15, 38.48]) True (Some ''Afghanistan'')
      west_geometry afghan_frame = Inr (Some (afghan_frame\<lparr>rows := [herat_row]\<rparr>))"
    by (simp add: defs)
  have b: "geofence (Coords [60.52, 29.31, 75.15, 38.48]) True (Some ''Afghanistan'')
      nowhere_geometry afghan_frame = Inr (Some (afghan_frame\<lparr>rows := [kabul_row, herat_row]\<rparr>))"
    by (simp add: defs)
  have c: "geofence (Coords [60.52, 29.31, 75.15, 38.48]) False (Some ''Afghanistan'')
      west_geometry afghan_frame = Inr (Some (afghan_frame\<lparr>rows := [kabul_row, herat_row]\<rparr>))"
    by (simp add: defs)
  note west = geofence_containment[where min_lon = "60.52" and min_lat = "29.31"
      and max_lon = "75.15" and max_lat = "38.48" and strict = True
      and country = "Some ''Afghanistan''" and get_geometry = west_geometry
      and all_results = afghan_frame]
  have "\<forall>r \<in> set (rows (afghan_frame\<lparr>rows := [herat_row]\<rparr>)).
      row_in_bbox 60.52 29.31 75.15 38.48 r"
    using west a by blast
  then have "row_in_bbox 60.52 29.31 75.15 38.48 herat_row"
    by simp
  moreover have "inside west_of_65 herat_row"
    by (simp add: inside_def points west_of_65_def)
  moreover have d: "geofence (Coords [60.52, 29.31, 75.15, 38.48]) False (Some ''Afghanistan'')
      nowhere_geometry afghan_frame = Inr (Some (afghan_frame\<lparr>rows := [kabul_row, herat_row]\<rparr>))"
    by (simp add: defs)
  moreover have "\<exists>out. geofence (Coords [60.52, 29.31, 75.15, 38.48]) True (Some ''Afghanistan'')
          nowhere_geometry afghan_frame = Inr (Some out) \<and> rows out \<noteq> []"
    using d geofence_containment[where min_lon = "60.52" and min_lat = "29.31"
      and max_lon = "75.15" and max_lat = "38.48" and strict = True
      and country = "Some ''Afghanistan''" and get_geometry = nowhere_geometry
      and all_results = afghan_frame]
    by blast
  ultimately show ?thesis
    using a b c by simp
qed

section \<open>The clusterer\<close>

text \<open>The clustering labels every sample: the labels are as many as the samples.\<close>

lemma length_dbscan_visit:
  "length (dbscan_visit is_core neighborhoods label_num i stack labels) = length labels"
proof (induction is_core neighborhoods label_num i stack labels rule: dbscan_visit.induct)
  case (1 is_core neighborhoods label_num i stack labels)
  show ?case
    using "1.IH"
    by (subst dbscan_visit.simps) (auto simp: Let_def split: list.splits)
qed

lemma length_dbscan_inner:
  "length (dbscan_inner is_core neighborhoods todo label_num labels) = length labels"
  by (induction todo arbitrary: label_num labels) (simp_all add: length_dbscan_visit)

lemma DBSCAN_fit_length:
  "DBSCAN_fit eps min_samples X = Inr labels \<Longrightarrow> length labels = length X"
  by (auto simp: DBSCAN_fit_def Let_def length_dbscan_inner split: if_splits)

text \<open>
  On fewer than \<open>min_samples\<close> samples no sample is a core sample and every label is
  \<open>-1\<close>: the early return of \<open>_apply_dbscan\<close> for a small table gives the labels
  that the clustering would give.
\<close>

lemma dbscan_inner_no_core:
  assumes "\<forall>i \<in> set todo. \<not> is_core ! i"
  shows "dbscan_inner is_core neighborhoods todo label_num labels = labels"
  using assms by (induction todo arbitrary: label_num labels) simp_all

lemma length_neighborhood: "length (neighborhood eps X i) \<le> length X"
proof -
  have "length (neighborhood eps X i) \<le> length [0..<length X]"
    unfolding neighborhood_def by (rule length_filter_le)
  then show ?thesis by simp
qed

lemma DBSCAN_fit_too_few:
  assumes "DBSCAN_fit eps min_samples X = Inr labels"
    and "int (length X) < min_samples"
  shows "labels = replicate (length X) (- 1)"
proof -
  let ?N = "map (neighborhood eps X) [0..<length X]"
  let ?C = "map (\<lambda>n. int (length n) \<ge> min_samples) ?N"
  have "\<not> ?C ! i" if "i \<in> set [0..<length X]" for i
    using that assms(2) length_neighborhood[of eps X i] by simp
  then have "dbscan_inner ?C ?N [0..<length X] 0 (replicate (length X) (- 1))
      = replicate (length X) (- 1)"
    by (intro dbscan_inner_no_core) blast
  then show ?thesis
    using assms(1) by (simp add: DBSCAN_fit_def Let_def split: if_splits)
qed

lemma those_map_nth:
  "those (map f xs) = Some ys \<Longrightarrow>
     length ys = length xs \<and> (\<forall>i < length xs. f (xs ! i) = Some (ys ! i))"
proof (induction xs arbitrary: ys)
  case Nil
  then show ?case by simp
next
  case (Cons x xs)
  then show ?case
    by (auto split: option.splits simp: nth_Cons split: nat.splits)
qed

lemma rows_assign_column:
  assumes "length vs = length (rows df)"
  shows "length (rows (assign_column c vs df)) = length (rows df)"
    and "i < length (rows df) \<Longrightarrow> rows (assign_column c vs df) ! i = (rows df ! i)(c \<mapsto> vs ! i)"
  using assms by (simp_all add: assign_column_def)

lemma min_stamp_Min:
  assumes "stamps \<noteq> []"
  shows "min_stamp stamps = Min (set stamps)"
proof -
  obtain t ts where ts: "stamps = t # ts"
    using assms by (cases stamps) auto
  have "Min (set (t # ts)) = fold min ts t"
    by (rule Min.set_eq_fold)
  then show ?thesis
    by (simp add: ts min_stamp_def)
qed

lemma mask_rows_filter:
  "mask_rows p rs = Inr rs' \<Longrightarrow> rs' = filter (\<lambda>r. p r = Inr True) rs"
proof (induction rs arbitrary: rs')
  case Nil
  then show ?case by simp
next
  case (Cons a rs)
  then show ?case
    by (auto split: sum.splits if_splits)
qed


lemma spatial_coords_nth:
  assumes "spatial_coords df = Inr ps"
  shows "length ps = length (rows df)"
    and "i < length (rows df) \<Longrightarrow>
           number_cell ((rows df ! i) ''latitude'') = Some (fst (ps ! i))
         \<and> number_cell ((rows df ! i) ''longitude'') = Some (snd (ps ! i))"
proof -
  let ?f = "\<lambda>r. case (number_cell (r ''latitude''), number_cell (r ''longitude'')) of
                    (Some lat, Some lon) \<Rightarrow> Some (lat, lon) | _ \<Rightarrow> None"
  have t: "those (map ?f (rows df)) = Some ps"
    using assms by (auto simp: spatial_coords_def split: if_splits option.splits)
  from those_map_nth[OF t] show "length ps = length (rows df)"
    by simp
  assume "i < length (rows df)"
  with those_map_nth[OF t] have "?f (rows df ! i) = Some (ps ! i)"
    by simp
  then show "number_cell ((rows df ! i) ''latitude'') = Some (fst (ps ! i))
         \<and> number_cell ((rows df ! i) ''longitude'') = Some (snd (ps ! i))"
    by (cases "ps ! i") (auto split: option.splits)
qed

lemma find_date_col_in: "find_date_col df = Some c \<Longrightarrow> c \<in> set date_columns"
  by (auto simp: find_date_col_def find_Some_iff)

lemma cluster_stage_dated:
  assumes "cluster_stage to_datetime df eps min_samples mtd = Inr out"
    and "find_date_col df = Some date_col"
  shows "\<exists>stamps ps labels.
      length stamps = length (rows df) \<and> length ps = length (rows df)
    \<and> length labels = length (rows df) \<and> length (rows out) = length (rows df)
    \<and> (\<forall>i < length (rows df).
          stamp_cell to_datetime ((rows df ! i) date_col) = Some (stamps ! i)
        \<and> number_cell ((rows df ! i) ''latitude'') = Some (fst (ps ! i))
        \<and> number_cell ((rows df ! i) ''longitude'') = Some (snd (ps ! i))
        \<and> rows out ! i = (rows df ! i)
             (date_col \<mapsto> Stamp (stamps ! i),
              ''day_num'' \<mapsto> IntV ((stamps ! i - min_stamp stamps) div ns_per_day),
              ''cluster'' \<mapsto> IntV (labels ! i)))
    \<and> DBSCAN_fit eps min_samples
         (map (\<lambda>i. [fst (ps ! i), snd (ps ! i),
                     real_of_int ((stamps ! i - min_stamp stamps) div ns_per_day) * day_scale
                       * real_of_int mtd]) [0..<length (rows df)]) = Inr labels"
proof -
  define n where "n = length (rows df)"
  obtain stamps where st: "those (map (\<lambda>r. stamp_cell to_datetime (r date_col)) (rows df)) = Some stamps"
    using assms by (auto simp: cluster_stage_def split: option.splits)
  define df1 where "df1 = assign_column date_col (map Stamp stamps) df"
  define day_num where "day_num = map (\<lambda>t. (t - min_stamp stamps) div ns_per_day) stamps"
  define df2 where "df2 = assign_column ''day_num'' (map IntV day_num) df1"
  obtain ps where ps: "spatial_coords df2 = Inr ps"
    using assms st by (auto simp: cluster_stage_def Let_def df1_def df2_def day_num_def split: sum.splits)
  define coords where "coords = map (\<lambda>((lat, lon), d). [lat, lon, real_of_int d * day_scale * real_of_int mtd]) (zip ps day_num)"
  obtain labels where lb: "DBSCAN_fit eps min_samples coords = Inr labels"
    and out: "out = assign_column ''cluster'' (map IntV labels) df2"
    using assms st ps
    by (auto simp: cluster_stage_def Let_def df1_def df2_def day_num_def coords_def split: sum.splits)
  have ls: "length stamps = n"
    using those_map_nth[OF st] by (simp add: n_def)
  have l1: "length (rows df1) = n"
    using ls by (simp add: df1_def rows_assign_column(1) n_def)
  have l2: "length (rows df2) = n"
    using ls l1 by (simp add: df2_def day_num_def rows_assign_column(1))
  have lp: "length ps = n"
    using spatial_coords_nth(1)[OF ps] l2 by simp
  have lc: "length coords = n"
    using lp ls by (simp add: coords_def day_num_def)
  have ll: "length labels = n"
    using DBSCAN_fit_length[OF lb] lc by simp
  have lo: "length (rows out) = n"
    using ll l2 by (simp add: out rows_assign_column(1))
  have dc: "date_col \<noteq> ''latitude''" "date_col \<noteq> ''longitude''"
    using find_date_col_in[OF assms(2)] by (auto simp: date_columns_def)
  have r2: "rows df2 ! i = (rows df ! i)(date_col \<mapsto> Stamp (stamps ! i),
              ''day_num'' \<mapsto> IntV ((stamps ! i - min_stamp stamps) div ns_per_day))"
    if "i < n" for i
    using that ls l1 by (simp add: df2_def df1_def day_num_def rows_assign_column(2) n_def)
  have ro: "rows out ! i = (rows df ! i)(date_col \<mapsto> Stamp (stamps ! i),
              ''day_num'' \<mapsto> IntV ((stamps ! i - min_stamp stamps) div ns_per_day),
              ''cluster'' \<mapsto> IntV (labels ! i))"
    if "i < n" for i
    using that ll l2 r2[OF that] by (simp add: out rows_assign_column(2))
  have sc: "stamp_cell to_datetime ((rows df ! i) date_col) = Some (stamps ! i)" if "i < n" for i
    using those_map_nth[OF st] that by (simp add: n_def)
  have nc: "number_cell ((rows df ! i) ''latitude'') = Some (fst (ps ! i))
         \<and> number_cell ((rows df ! i) ''longitude'') = Some (snd (ps ! i))" if "i < n" for i
    using spatial_coords_nth(2)[OF ps, of i] that l2 r2[OF that] dc by simp
  have ce: "coords = map (\<lambda>i. [fst (ps ! i), snd (ps ! i),
                     real_of_int ((stamps ! i - min_stamp stamps) div ns_per_day) * day_scale
                       * real_of_int mtd]) [0..<n]"
    using lp ls by (intro nth_equalityI) (auto simp: coords_def day_num_def split: prod.splits)
  show ?thesis
    using ls lp ll lo sc nc ro lb unfolding ce n_def[symmetric]
    by (intro exI[of _ stamps] exI[of _ ps] exI[of _ labels]) simp
qed


lemma cluster_stage_spatial:
  assumes "cluster_stage to_datetime df eps min_samples mtd = Inr out"
    and "find_date_col df = None"
  shows "\<exists>ps labels.
      length ps = length (rows df) \<and> length labels = length (rows df)
    \<and> length (rows out) = length (rows df)
    \<and> (\<forall>i < length (rows df).
          number_cell ((rows df ! i) ''latitude'') = Some (fst (ps ! i))
        \<and> number_cell ((rows df ! i) ''longitude'') = Some (snd (ps ! i))
        \<and> rows out ! i = (rows df ! i)(''cluster'' \<mapsto> IntV (labels ! i)))
    \<and> DBSCAN_fit eps min_samples
         (map (\<lambda>i. [fst (ps ! i), snd (ps ! i)]) [0..<length (rows df)]) = Inr labels"
proof -
  define n where "n = length (rows df)"
  obtain ps where ps: "spatial_coords df = Inr ps"
    using assms by (auto simp: cluster_stage_def split: sum.splits)
  define coords where "coords = map (\<lambda>(lat, lon). [lat, lon]) ps"
  obtain labels where lb: "DBSCAN_fit eps min_samples coords = Inr labels"
    and out: "out = assign_column ''cluster'' (map IntV labels) df"
    using assms ps by (auto simp: cluster_stage_def Let_def coords_def split: sum.splits)
  have lp: "length ps = n"
    using spatial_coords_nth(1)[OF ps] by (simp add: n_def)
  have ll: "length labels = n"
    using DBSCAN_fit_length[OF lb] lp by (simp add: coords_def)
  have lo: "length (rows out) = n"
    using ll by (simp add: out rows_assign_column(1) n_def)
  have ro: "rows out ! i = (rows df ! i)(''cluster'' \<mapsto> IntV (labels ! i))" if "i < n" for i
    using that ll by (simp add: out rows_assign_column(2) n_def)
  have nc: "number_cell ((rows df ! i) ''latitude'') = Some (fst (ps ! i))
         \<and> number_cell ((rows df ! i) ''longitude'') = Some (snd (ps ! i))" if "i < n" for i
    using spatial_coords_nth(2)[OF ps, of i] that by (simp add: n_def)
  have ce: "coords = map (\<lambda>i. [fst (ps ! i), snd (ps ! i)]) [0..<n]"
    using lp by (intro nth_equalityI) (auto simp: coords_def split: prod.splits)
  show ?thesis
    using lp ll lo nc ro lb unfolding ce n_def[symmetric]
    by (intro exI[of _ ps] exI[of _ labels]) simp
qed

lemma in_bbox_iff: "in_bbox a b c d r = Inr True \<longleftrightarrow> row_in_bbox a b c d r"
  by (auto simp: in_bbox_def row_in_bbox_def point_of_def split: sum.splits option.splits)

lemma bbox_filter_eq:
  assumes "bbox_filter a b c d df = Inr f"
  shows "f = df\<lparr>rows := filter (row_in_bbox a b c d) (rows df)\<rparr>"
proof -
  obtain rs where rs: "mask_rows (in_bbox a b c d) (rows df) = Inr rs" "f = df\<lparr>rows := rs\<rparr>"
    using assms by (auto simp: bbox_filter_def split: if_splits sum.splits)
  show ?thesis
    using mask_rows_filter[OF rs(1)] rs(2) by (simp add: in_bbox_iff)
qed

lemma rows_mark_noise:
  "length (rows (mark_noise df)) = length (rows df)"
  "i < length (rows df) \<Longrightarrow> rows (mark_noise df) ! i = (rows df ! i)(''cluster'' \<mapsto> IntV (- 1))"
  by (simp_all add: mark_noise_def rows_assign_column)

text \<open>How \<open>_apply_dbscan\<close> returns: early with every row marked noise, or from the clustering.\<close>

lemma apply_dbscan_cases:
  assumes "apply_dbscan to_datetime df eps min_samples bbox mtd = Inr out"
  shows "(int (length (kept_rows df min_samples bbox)) < min_samples
           \<and> out = mark_noise (df\<lparr>rows := kept_rows df min_samples bbox\<rparr>))
       \<or> (min_samples \<le> int (length (kept_rows df min_samples bbox))
           \<and> cluster_stage to_datetime (df\<lparr>rows := kept_rows df min_samples bbox\<rparr>) eps min_samples mtd
                = Inr out)"
proof (cases "int (length (rows df)) < min_samples")
  case True
  then show ?thesis
    using assms by (simp add: apply_dbscan_def kept_rows_def)
next
  case False
  show ?thesis
  proof (cases "\<exists>a b c d. bbox = Coords [a, b, c, d]")
    case True
    then obtain a b c d where bb: "bbox = Coords [a, b, c, d]" by blast
    obtain f where f: "bbox_filter a b c d df = Inr f"
      using assms False bb by (auto simp: apply_dbscan_def dbscan_bbox_stage_def split: sum.splits)
    have fe: "f = df\<lparr>rows := kept_rows df min_samples bbox\<rparr>"
      using bbox_filter_eq[OF f] False bb by (simp add: kept_rows_def)
    show ?thesis
      using assms False bb f fe
      by (auto simp: apply_dbscan_def dbscan_bbox_stage_def split: if_splits)
  next
    case no: False
    have k: "kept_rows df min_samples bbox = rows df"
      using False no by (auto simp: kept_rows_def split: bbox_parse.splits list.splits)
    have "dbscan_bbox_stage df min_samples bbox = Inr (Filtered df)
        \<or> dbscan_bbox_stage df min_samples bbox = Inl ValueError"
      using no by (auto simp: dbscan_bbox_stage_def split: bbox_parse.splits list.splits)
    then show ?thesis
      using assms False k by (auto simp: apply_dbscan_def)
  qed
qed

lemma find_date_col_rows: "find_date_col (df\<lparr>rows := rs\<rparr>) = find_date_col df"
  by (simp add: find_date_col_def)


text \<open>
  C3 (as amended). When the table has a recognized date column and the clustering is
  attempted (at least \<open>min_samples\<close> rows are kept), the rows kept are all rows of the
  table, or those inside the bounding box when one is passed, and the labels are those
  of the density clustering, with \<open>eps\<close> and \<open>min_samples\<close>, of the vectors
  (latitude, longitude, day offset times \<open>day_scale\<close> times \<open>max_time_diff_days\<close>),
  one per kept row. The timestamps are those of the input rows as \<open>pd.to_datetime\<close>
  converts them, the day offset is the whole number of days from the earliest timestamp
  of the kept rows to the row's (it is also stored in \<open>day_num\<close>), and \<open>day_scale\<close>
  is 0.001.
\<close>

theorem clusterer_embedding:
  assumes "apply_dbscan to_datetime df eps min_samples bbox max_time_diff_days = Inr out"
    and "find_date_col df = Some date_col"
    and "min_samples \<le> int (length (rows out))"
  shows "day_scale = 0.001
    \<and> length (rows out) = length (kept_rows df min_samples bbox)
    \<and> (bbox = NoBbox \<longrightarrow> kept_rows df min_samples bbox = rows df)
    \<and> (\<forall>a b c d. bbox = Coords [a, b, c, d]
          \<longrightarrow> kept_rows df min_samples bbox = filter (row_in_bbox a b c d) (rows df))
    \<and> (\<exists>stamps lats lons labels.
        length stamps = length (rows out) \<and> length lats = length (rows out)
      \<and> length lons = length (rows out) \<and> length labels = length (rows out)
      \<and> (\<forall>i < length (rows out).
            stamp_cell to_datetime ((kept_rows df min_samples bbox ! i) date_col)
              = Some (stamps ! i)
          \<and> number_cell ((kept_rows df min_samples bbox ! i) ''latitude'') = Some (lats ! i)
          \<and> number_cell ((kept_rows df min_samples bbox ! i) ''longitude'') = Some (lons ! i)
          \<and> (rows out ! i) date_col = Some (Stamp (stamps ! i))
          \<and> (rows out ! i) ''day_num''
              = Some (IntV ((stamps ! i - Min (set stamps)) div ns_per_day))
          \<and> (rows out ! i) ''cluster'' = Some (IntV (labels ! i)))
      \<and> DBSCAN_fit eps min_samples
           (map (\<lambda>i. [lats ! i, lons ! i,
                       real_of_int ((stamps ! i - Min (set stamps)) div ns_per_day) * day_scale
                         * real_of_int max_time_diff_days])
                [0..<length (rows out)]) = Inr labels)"
proof -
  define kept where "kept = kept_rows df min_samples bbox"
  define fd where "fd = df\<lparr>rows := kept\<rparr>"
  have cs: "cluster_stage to_datetime fd eps min_samples max_time_diff_days = Inr out"
    using apply_dbscan_cases[OF assms(1)] assms(3)
    by (auto simp: fd_def kept_def rows_mark_noise(1))
  have dcol: "find_date_col fd = Some date_col"
    using assms(2) by (simp add: fd_def find_date_col_rows)
  have rfd: "rows fd = kept"
    by (simp add: fd_def)
  obtain stamps ps labels where h:
    "length stamps = length kept" "length ps = length kept"
    "length labels = length kept" "length (rows out) = length kept"
    "\<forall>i < length kept.
          stamp_cell to_datetime ((kept ! i) date_col) = Some (stamps ! i)
        \<and> number_cell ((kept ! i) ''latitude'') = Some (fst (ps ! i))
        \<and> number_cell ((kept ! i) ''longitude'') = Some (snd (ps ! i))
        \<and> rows out ! i = (kept ! i)
             (date_col \<mapsto> Stamp (stamps ! i),
              ''day_num'' \<mapsto> IntV ((stamps ! i - min_stamp stamps) div ns_per_day),
              ''cluster'' \<mapsto> IntV (labels ! i))"
    "DBSCAN_fit eps min_samples
         (map (\<lambda>i. [fst (ps ! i), snd (ps ! i),
                     real_of_int ((stamps ! i - min_stamp stamps) div ns_per_day) * day_scale
                       * real_of_int max_time_diff_days]) [0..<length kept]) = Inr labels"
    using cluster_stage_dated[OF cs dcol] unfolding rfd by blast
  define n where "n = length (rows out)"
  have n: "length kept = n"
    using h(4) by (simp add: n_def)
  have dc: "date_col \<noteq> ''latitude''" "date_col \<noteq> ''longitude''" "date_col \<noteq> ''day_num''"
    "date_col \<noteq> ''cluster''"
    using find_date_col_in[OF assms(2)] by (auto simp: date_columns_def)
  have mn: "min_stamp stamps = Min (set stamps)" if "i < n" for i
  proof -
    have "stamps \<noteq> []" using that h(1) n by auto
    then show ?thesis by (rule min_stamp_Min)
  qed
  have cells: "stamp_cell to_datetime ((kept ! i) date_col) = Some (stamps ! i)
          \<and> number_cell ((kept ! i) ''latitude'') = Some (map fst ps ! i)
          \<and> number_cell ((kept ! i) ''longitude'') = Some (map snd ps ! i)
          \<and> (rows out ! i) date_col = Some (Stamp (stamps ! i))
          \<and> (rows out ! i) ''day_num''
              = Some (IntV ((stamps ! i - Min (set stamps)) div ns_per_day))
          \<and> (rows out ! i) ''cluster'' = Some (IntV (labels ! i))" if "i < n" for i
    using h(5) that n h(2) dc mn[OF that] by simp
  have eq: "map (\<lambda>i. [fst (ps ! i), snd (ps ! i),
                     real_of_int ((stamps ! i - min_stamp stamps) div ns_per_day) * day_scale
                       * real_of_int max_time_diff_days]) [0..<n]
      = map (\<lambda>i. [map fst ps ! i, map snd ps ! i,
                     real_of_int ((stamps ! i - Min (set stamps)) div ns_per_day) * day_scale
                       * real_of_int max_time_diff_days]) [0..<n]"
  proof (rule map_cong[OF refl])
    fix i assume "i \<in> set [0..<n]"
    then have i: "i < n" by simp
    show "[fst (ps ! i), snd (ps ! i),
                     real_of_int ((stamps ! i - min_stamp stamps) div ns_per_day) * day_scale
                       * real_of_int max_time_diff_days]
       = [map fst ps ! i, map snd ps ! i,
                     real_of_int ((stamps ! i - Min (set stamps)) div ns_per_day) * day_scale
                       * real_of_int max_time_diff_days]"
      using i h(2) n mn[OF i] by simp
  qed
  have fit: "DBSCAN_fit eps min_samples
           (map (\<lambda>i. [map fst ps ! i, map snd ps ! i,
                       real_of_int ((stamps ! i - Min (set stamps)) div ns_per_day) * day_scale
                         * real_of_int max_time_diff_days])
                [0..<n]) = Inr labels"
    using h(6) by (simp only: n eq)
  have ex: "\<exists>stamps lats lons labels.
        length stamps = n \<and> length lats = n \<and> length lons = n \<and> length labels = n
      \<and> (\<forall>i < n.
            stamp_cell to_datetime ((kept ! i) date_col) = Some (stamps ! i)
          \<and> number_cell ((kept ! i) ''latitude'') = Some (lats ! i)
          \<and> number_cell ((kept ! i) ''longitude'') = Some (lons ! i)
          \<and> (rows out ! i) date_col = Some (Stamp (stamps ! i))
          \<and> (rows out ! i) ''day_num''
              = Some (IntV ((stamps ! i - Min (set stamps)) div ns_per_day))
          \<and> (rows out ! i) ''cluster'' = Some (IntV (labels ! i)))
      \<and> DBSCAN_fit eps min_samples
           (map (\<lambda>i. [lats ! i, lons ! i,
                       real_of_int ((stamps ! i - Min (set stamps)) div ns_per_day) * day_scale
                         * real_of_int max_time_diff_days])
                [0..<n]) = Inr labels"
    using h(1-3) n cells fit
    by (intro exI[of _ stamps] exI[of _ "map fst ps"] exI[of _ "map snd ps"] exI[of _ labels]) simp
  have nb: "bbox = NoBbox \<longrightarrow> kept_rows df min_samples bbox = rows df"
    by (simp add: kept_rows_def)
  have "\<not> int (length (rows df)) < min_samples"
    using assms(3) n by (auto simp: n_def kept_def kept_rows_def split: if_splits)
  then have cb: "\<forall>a b c d. bbox = Coords [a, b, c, d]
      \<longrightarrow> kept_rows df min_samples bbox = filter (row_in_bbox a b c d) (rows df)"
    by (simp add: kept_rows_def)
  have sc: "day_scale = 0.001"
    by (simp add: day_scale_def)
  have ln: "length (rows out) = length (kept_rows df min_samples bbox)"
    using n by (simp add: n_def kept_def)
  note ex' = ex[unfolded n_def kept_def]
  show ?thesis
    by (intro conjI sc ln nb cb ex')
qed

text \<open>Evaluation of the clusterer on concrete tables.\<close>

lemmas dbscan_eval =
  DBSCAN_fit_def neighborhood_def sq_dist_def Let_def dbscan_visit.simps upt_rec power2_eq_square

lemmas apply_dbscan_eval =
  apply_dbscan_def quad_frame_def dbscan_bbox_stage_def cluster_stage_def find_date_col_def
  date_columns_def detection_def stamp_cell_def iso_to_datetime_def assign_column_def
  min_stamp_def spatial_coords_def number_cell_def day_scale_def labels_of_def ns_per_day_def

lemmas afghan_eval =
  apply_dbscan_def afghan_frame_def dbscan_bbox_stage_def cluster_stage_def find_date_col_def
  date_columns_def stamp_cell_def iso_to_datetime_def assign_column_def
  min_stamp_def spatial_coords_def number_cell_def day_scale_def labels_of_def columns_of_def
  ns_per_day_def bbox_filter_def in_bbox_def cell_real_def

lemma afghan_cells:
  "kabul_row ''longitude'' = Some (Num 69.2)" "kabul_row ''latitude'' = Some (Num 34.5)"
  "herat_row ''longitude'' = Some (Num 62.2)" "herat_row ''latitude'' = Some (Num 34.3)"
  "far_row ''longitude'' = Some (Num 10)" "far_row ''latitude'' = Some (Num 10)"
  "kabul_row ''acq_date'' = Some (Str ''2025-03-21'')"
  "herat_row ''acq_date'' = Some (Str ''2025-03-21'')"
  "far_row ''acq_date'' = Some (Str ''2025-03-22'')"
  by (simp_all add: kabul_row_def herat_row_def far_row_def)

theorem clusterer_embedding_witness:
  "find_date_col (quad_frame ''acq_date'' ''2025-03-01'' ''2025-03-04'') = Some ''acq_date''
   \<and> labels_of (apply_dbscan iso_to_datetime (quad_frame ''acq_date'' ''2025-03-01'' ''2025-03-04'')
        0.01 2 NoBbox 5) = [Some (IntV 0), Some (IntV 0), Some (IntV 1), Some (IntV 1)]
   \<and> day_nums_of (apply_dbscan iso_to_datetime
        (quad_frame ''acq_date'' ''2025-03-01'' ''2025-03-04'') 0.01 2 NoBbox 5)
      = [Some (IntV 0), Some (IntV 0), Some (IntV 3), Some (IntV 3)]
   \<and> spec_day_offsets iso_to_datetime ''acq_date''
        (quad_frame ''acq_date'' ''2025-03-01'' ''2025-03-04'') = Some [0, 0, 3, 3]
   \<and> DBSCAN_fit 0.01 2 [[10, 20, 0], [10, 20, 0], [10, 20, 0.015], [10, 20, 0.015]]
      = Inr [0, 0, 1, 1]
   \<and> (\<exists>out. apply_dbscan iso_to_datetime (quad_frame ''acq_date'' ''2025-03-01'' ''2025-03-04'')
        0.01 2 NoBbox 5 = Inr out
      \<and> 2 \<le> int (length (rows out))
      \<and> (\<exists>stamps lats lons labels.
            length stamps = length (rows out)
          \<and> (\<forall>i < length (rows out).
                stamp_cell iso_to_datetime
                  ((rows (quad_frame ''acq_date'' ''2025-03-01'' ''2025-03-04'') ! i) ''acq_date'')
                  = Some (stamps ! i)
              \<and> number_cell
                  ((rows (quad_frame ''acq_date'' ''2025-03-01'' ''2025-03-04'') ! i) ''latitude'')
                  = Some (lats ! i)
              \<and> number_cell
                  ((rows (quad_frame ''acq_date'' ''2025-03-01'' ''2025-03-04'') ! i) ''longitude'')
                  = Some (lons ! i)
              \<and> (rows out ! i) ''cluster'' = Some (IntV (labels ! i)))
          \<and> DBSCAN_fit 0.01 2
               (map (\<lambda>i. [lats ! i, lons ! i,
                           real_of_int ((stamps ! i - Min (set stamps)) div ns_per_day) * 0.001 * 5])
                    [0..<length (rows out)]) = Inr labels))"
proof -
  let ?df = "quad_frame ''acq_date'' ''2025-03-01'' ''2025-03-04''"
  have d: "find_date_col ?df = Some ''acq_date''"
    by (simp add: find_date_col_def date_columns_def quad_frame_def)
  have l: "labels_of (apply_dbscan iso_to_datetime ?df 0.01 2 NoBbox 5)
      = [Some (IntV 0), Some (IntV 0), Some (IntV 1), Some (IntV 1)]"
    by (simp add: apply_dbscan_eval dbscan_eval)
  have dn: "day_nums_of (apply_dbscan iso_to_datetime ?df 0.01 2 NoBbox 5)
      = [Some (IntV 0), Some (IntV 0), Some (IntV 3), Some (IntV 3)]"
    by (simp add: apply_dbscan_eval day_nums_of_def dbscan_eval)
  have sp: "spec_day_offsets iso_to_datetime ''acq_date'' ?df = Some [0, 0, 3, 3]"
    by (simp add: spec_day_offsets_def quad_frame_def detection_def stamp_cell_def
        iso_to_datetime_def ns_per_day_def)
  have f: "DBSCAN_fit 0.01 2 [[10, 20, 0], [10, 20, 0], [10, 20, 0.015], [10, 20, 0.015]]
      = Inr [0, 0, 1, 1]"
    by (simp add: dbscan_eval)
  have "\<exists>out. apply_dbscan iso_to_datetime ?df 0.01 2 NoBbox 5 = Inr out \<and> length (rows out) = 4"
    by (simp add: apply_dbscan_eval dbscan_eval)
  then obtain out where o: "apply_dbscan iso_to_datetime ?df 0.01 2 NoBbox 5 = Inr out"
    and n: "length (rows out) = 4"
    by blast
  have m: "2 \<le> int (length (rows out))"
    using n by simp
  have k: "kept_rows ?df 2 NoBbox = rows ?df"
    by (simp add: kept_rows_def quad_frame_def)
  obtain stamps lats lons labels where h:
    "length stamps = length (rows out)"
    "\<forall>i < length (rows out).
        stamp_cell iso_to_datetime ((rows ?df ! i) ''acq_date'') = Some (stamps ! i)
      \<and> number_cell ((rows ?df ! i) ''latitude'') = Some (lats ! i)
      \<and> number_cell ((rows ?df ! i) ''longitude'') = Some (lons ! i)
      \<and> (rows out ! i) ''acq_date'' = Some (Stamp (stamps ! i))
      \<and> (rows out ! i) ''day_num''
          = Some (IntV ((stamps ! i - Min (set stamps)) div ns_per_day))
      \<and> (rows out ! i) ''cluster'' = Some (IntV (labels ! i))"
    "DBSCAN_fit 0.01 2
       (map (\<lambda>i. [lats ! i, lons ! i,
                   real_of_int ((stamps ! i - Min (set stamps)) div ns_per_day) * day_scale
                     * real_of_int 5])
            [0..<length (rows out)]) = Inr labels"
    using clusterer_embedding[OF o d m] unfolding k by blast
  have fit: "DBSCAN_fit 0.01 2
       (map (\<lambda>i. [lats ! i, lons ! i,
                   real_of_int ((stamps ! i - Min (set stamps)) div ns_per_day) * 0.001 * 5])
            [0..<length (rows out)]) = Inr labels"
    using h(3) by (simp add: day_scale_def)
  have "\<exists>stamps lats lons labels.
            length stamps = length (rows out)
          \<and> (\<forall>i < length (rows out).
                stamp_cell iso_to_datetime ((rows ?df ! i) ''acq_date'') = Some (stamps ! i)
              \<and> number_cell ((rows ?df ! i) ''latitude'') = Some (lats ! i)
              \<and> number_cell ((rows ?df ! i) ''longitude'') = Some (lons ! i)
              \<and> (rows out ! i) ''cluster'' = Some (IntV (labels ! i)))
          \<and> DBSCAN_fit 0.01 2
               (map (\<lambda>i. [lats ! i, lons ! i,
                           real_of_int ((stamps ! i - Min (set stamps)) div ns_per_day) * 0.001 * 5])
                    [0..<length (rows out)]) = Inr labels"
    using h(1,2) fit
    by (intro exI[of _ stamps] exI[of _ lats] exI[of _ lons] exI[of _ labels]) simp
  then show ?thesis
    using d l dn sp f o m by blast
qed

lemma early_cells:
  "early_far_row ''longitude'' = Some (Num 10)" "early_far_row ''latitude'' = Some (Num 10)"
  "early_far_row ''acq_date'' = Some (Str ''2025-03-01'')"
  by (simp_all add: early_far_row_def)

lemma early_points:
  "point_of kabul_row = Some (69.2, 34.5)" "point_of herat_row = Some (62.2, 34.3)"
  "point_of early_far_row = Some (10, 10)"
  by (simp_all add: point_of_def cell_real_def afghan_cells early_cells)

text \<open>
  The claim as stated fails when the earliest detection lies outside the bounding box
  passed to the clusterer: the two detections of 2025-03-21 that are kept get the day
  offset 0, where the offset from the earliest date of the whole table, 2025-03-01, is
  20.
\<close>

theorem clusterer_embedding_min_counterexample:
  "day_nums_of (apply_dbscan iso_to_datetime early_frame 0.01 1
      (Coords [60.52, 29.31, 75.15, 38.48]) 5) = [Some (IntV 0), Some (IntV 0)]
   \<and> kept_rows early_frame 1 (Coords [60.52, 29.31, 75.15, 38.48]) = [kabul_row, herat_row]
   \<and> rows early_frame = [early_far_row, kabul_row, herat_row]
   \<and> spec_day_offsets iso_to_datetime ''acq_date'' early_frame = Some [0, 20, 20]"
proof (intro conjI)
  show "day_nums_of (apply_dbscan iso_to_datetime early_frame 0.01 1
      (Coords [60.52, 29.31, 75.15, 38.48]) 5) = [Some (IntV 0), Some (IntV 0)]"
    by (simp add: afghan_eval early_frame_def day_nums_of_def afghan_cells early_cells dbscan_eval)
  show "kept_rows early_frame 1 (Coords [60.52, 29.31, 75.15, 38.48]) = [kabul_row, herat_row]"
    by (simp add: kept_rows_def early_frame_def row_in_bbox_def early_points)
  show "rows early_frame = [early_far_row, kabul_row, herat_row]"
    by (simp add: early_frame_def)
  show "spec_day_offsets iso_to_datetime ''acq_date'' early_frame = Some [0, 20, 20]"
    by (simp add: spec_day_offsets_def early_frame_def stamp_cell_def iso_to_datetime_def
        afghan_cells early_cells ns_per_day_def)
qed

lemma find_date_col_None:
  "find_date_col df = None \<longleftrightarrow> (\<forall>c \<in> set date_columns. c \<notin> set (columns df))"
  by (auto simp: find_date_col_def find_None_iff)

text \<open>
  C10. When the table has none of the recognized date columns and the clustering is
  attempted, the labels are those of the density clustering, with the same \<open>eps\<close> and
  \<open>min_samples\<close>, of the two-dimensional vectors (latitude, longitude): no cell other
  than the coordinates enters, so detections share a cluster whatever their times.
\<close>

theorem clusterer_spatial_fallback:
  assumes "apply_dbscan to_datetime df eps min_samples bbox max_time_diff_days = Inr out"
    and "\<forall>c \<in> set date_columns. c \<notin> set (columns df)"
    and "min_samples \<le> int (length (rows out))"
  shows "\<exists>lats lons labels.
        length lats = length (rows out) \<and> length lons = length (rows out)
      \<and> length labels = length (rows out)
      \<and> (\<forall>i < length (rows out).
            number_cell ((rows out ! i) ''latitude'') = Some (lats ! i)
          \<and> number_cell ((rows out ! i) ''longitude'') = Some (lons ! i)
          \<and> (rows out ! i) ''cluster'' = Some (IntV (labels ! i)))
      \<and> DBSCAN_fit eps min_samples
           (map (\<lambda>i. [lats ! i, lons ! i]) [0..<length (rows out)]) = Inr labels"
proof -
  define fd where "fd = df\<lparr>rows := kept_rows df min_samples bbox\<rparr>"
  have cs: "cluster_stage to_datetime fd eps min_samples max_time_diff_days = Inr out"
    using apply_dbscan_cases[OF assms(1)] assms(3)
    by (auto simp: fd_def rows_mark_noise(1))
  have dcol: "find_date_col fd = None"
    using assms(2) by (simp add: fd_def find_date_col_rows find_date_col_None)
  obtain ps labels where h:
    "length ps = length (rows fd)" "length labels = length (rows fd)"
    "length (rows out) = length (rows fd)"
    "\<forall>i < length (rows fd).
          number_cell ((rows fd ! i) ''latitude'') = Some (fst (ps ! i))
        \<and> number_cell ((rows fd ! i) ''longitude'') = Some (snd (ps ! i))
        \<and> rows out ! i = (rows fd ! i)(''cluster'' \<mapsto> IntV (labels ! i))"
    "DBSCAN_fit eps min_samples
         (map (\<lambda>i. [fst (ps ! i), snd (ps ! i)]) [0..<length (rows fd)]) = Inr labels"
    using cluster_stage_spatial[OF cs dcol] by blast
  define n where "n = length (rows out)"
  have n: "length (rows fd) = n"
    using h(3) by (simp add: n_def)
  have cells: "number_cell ((rows out ! i) ''latitude'') = Some (map fst ps ! i)
          \<and> number_cell ((rows out ! i) ''longitude'') = Some (map snd ps ! i)
          \<and> (rows out ! i) ''cluster'' = Some (IntV (labels ! i))" if "i < n" for i
    using h(4) that n h(1) by simp
  have eq: "map (\<lambda>i. [fst (ps ! i), snd (ps ! i)]) [0..<n]
      = map (\<lambda>i. [map fst ps ! i, map snd ps ! i]) [0..<n]"
    using h(1) n by (intro map_cong[OF refl]) simp
  have fit: "DBSCAN_fit eps min_samples
      (map (\<lambda>i. [map fst ps ! i, map snd ps ! i]) [0..<n]) = Inr labels"
    using h(5) by (simp only: n eq)
  show ?thesis
    unfolding n_def[symmetric]
    using h(1,2) n cells fit
    by (intro exI[of _ "map fst ps"] exI[of _ "map snd ps"] exI[of _ labels]) simp
qed

theorem clusterer_spatial_fallback_witness:
  "find_date_col (quad_frame ''acq_datetime'' ''2025-03-01'' ''2025-04-20'') = None
   \<and> labels_of (apply_dbscan iso_to_datetime
        (quad_frame ''acq_datetime'' ''2025-03-01'' ''2025-04-20'') 0.01 2 NoBbox 5)
      = [Some (IntV 0), Some (IntV 0), Some (IntV 0), Some (IntV 0)]
   \<and> DBSCAN_fit 0.01 2 [[10, 20], [10, 20], [10, 20], [10, 20]] = Inr [0, 0, 0, 0]
   \<and> (\<exists>out. apply_dbscan iso_to_datetime
          (quad_frame ''acq_datetime'' ''2025-03-01'' ''2025-04-20'') 0.01 2 NoBbox 5 = Inr out
      \<and> 2 \<le> int (length (rows out))
      \<and> (\<exists>lats lons labels.
            (\<forall>i < length (rows out).
                number_cell ((rows out ! i) ''latitude'') = Some (lats ! i)
              \<and> number_cell ((rows out ! i) ''longitude'') = Some (lons ! i)
              \<and> (rows out ! i) ''cluster'' = Some (IntV (labels ! i)))
          \<and> DBSCAN_fit 0.01 2
               (map (\<lambda>i. [lats ! i, lons ! i]) [0..<length (rows out)]) = Inr labels))"
proof -
  let ?df = "quad_frame ''acq_datetime'' ''2025-03-01'' ''2025-04-20''"
  have d: "\<forall>c \<in> set date_columns. c \<notin> set (columns ?df)"
    by (simp add: date_columns_def quad_frame_def)
  have l: "labels_of (apply_dbscan iso_to_datetime ?df 0.01 2 NoBbox 5)
      = [Some (IntV 0), Some (IntV 0), Some (IntV 0), Some (IntV 0)]"
    by (simp add: apply_dbscan_eval dbscan_eval)
  have f: "DBSCAN_fit 0.01 2 [[10, 20], [10, 20], [10, 20], [10, 20]] = Inr [0, 0, 0, 0]"
    by (simp add: dbscan_eval)
  have "\<exists>out. apply_dbscan iso_to_datetime ?df 0.01 2 NoBbox 5 = Inr out \<and> length (rows out) = 4"
    by (simp add: apply_dbscan_eval dbscan_eval)
  then obtain out where o: "apply_dbscan iso_to_datetime ?df 0.01 2 NoBbox 5 = Inr out"
    and n: "length (rows out) = 4"
    by blast
  have m: "2 \<le> int (length (rows out))"
    using n by simp
  have "\<exists>lats lons labels.
            (\<forall>i < length (rows out).
                number_cell ((rows out ! i) ''latitude'') = Some (lats ! i)
              \<and> number_cell ((rows out ! i) ''longitude'') = Some (lons ! i)
              \<and> (rows out ! i) ''cluster'' = Some (IntV (labels ! i)))
          \<and> DBSCAN_fit 0.01 2
               (map (\<lambda>i. [lats ! i, lons ! i]) [0..<length (rows out)]) = Inr labels"
    using clusterer_spatial_fallback[OF o d m] by blast
  moreover have "find_date_col ?df = None"
    using d by (simp only: find_date_col_None)
  ultimately show ?thesis
    using l f o m by blast
qed

text \<open>
  C4. With \<open>eps = 0.01\<close>, \<open>max_time_diff_days = 5\<close> and \<open>min_samples = 2\<close>, two
  detections on each of two dates at one place: one day apart they form one cluster, 50
  days apart two clusters; but three days apart, within \<open>max_time_diff_days\<close>, they
  form two clusters as well, since the scaled day offsets differ by 0.015, more than
  \<open>eps\<close>.
\<close>

theorem temporal_separation_examples:
  "labels_of (apply_dbscan iso_to_datetime (quad_frame ''acq_date'' ''2025-03-01'' ''2025-03-02'')
      0.01 2 NoBbox 5) = [Some (IntV 0), Some (IntV 0), Some (IntV 0), Some (IntV 0)]
   \<and> labels_of (apply_dbscan iso_to_datetime (quad_frame ''acq_date'' ''2025-03-01'' ''2025-04-20'')
      0.01 2 NoBbox 5) = [Some (IntV 0), Some (IntV 0), Some (IntV 1), Some (IntV 1)]
   \<and> labels_of (apply_dbscan iso_to_datetime (quad_frame ''acq_date'' ''2025-03-01'' ''2025-03-04'')
      0.01 2 NoBbox 5) = [Some (IntV 0), Some (IntV 0), Some (IntV 1), Some (IntV 1)]"
  by (simp add: apply_dbscan_eval dbscan_eval)

lemma find_date_col_column: "find_date_col df = Some c \<Longrightarrow> c \<in> set (columns df)"
  by (auto simp: find_date_col_def find_Some_iff)

lemma columns_assign_column:
  "set (columns (assign_column c vs df)) = insert c (set (columns df))"
  by (auto simp: assign_column_def)

lemma columns_cluster_stage:
  assumes "cluster_stage to_datetime fd eps min_samples mtd = Inr out"
  shows "set (columns fd) \<subseteq> set (columns out)
     \<and> set (columns out) \<subseteq> set (columns fd) \<union> {''cluster'', ''day_num''}"
  using assms
  by (auto simp: cluster_stage_def Let_def columns_assign_column
      split: option.splits sum.splits dest: find_date_col_column)

lemma rows_cluster_stage:
  assumes "cluster_stage to_datetime fd eps min_samples mtd = Inr out"
  shows "length (rows out) = length (rows fd)
     \<and> (\<forall>i < length (rows fd). \<forall>col. col \<noteq> ''cluster'' \<and> col \<noteq> ''day_num''
             \<and> find_date_col fd \<noteq> Some col
           \<longrightarrow> (rows out ! i) col = (rows fd ! i) col)"
proof (cases "find_date_col fd")
  case None
  show ?thesis
    using cluster_stage_spatial[OF assms None] by auto
next
  case (Some date_col)
  show ?thesis
    using cluster_stage_dated[OF assms Some] Some by auto
qed

text \<open>
  C9 (as amended). The clusterer returns the rows it keeps, in order: all rows of the
  input when there are fewer than \<open>min_samples\<close> or no bounding box is given, and
  otherwise the rows inside the bounding box. In each returned row every field other
  than \<open>cluster\<close>, \<open>day_num\<close> and the recognized date column is unchanged, and the
  only columns added are \<open>cluster\<close> and \<open>day_num\<close>.
\<close>

theorem clusterer_keeps_rows:
  assumes "apply_dbscan to_datetime df eps min_samples bbox max_time_diff_days = Inr out"
  shows "length (rows out) = length (kept_rows df min_samples bbox)
     \<and> (\<forall>i < length (rows out). \<forall>col.
           col \<noteq> ''cluster'' \<and> col \<noteq> ''day_num'' \<and> find_date_col df \<noteq> Some col
           \<longrightarrow> (rows out ! i) col = (kept_rows df min_samples bbox ! i) col)
     \<and> set (columns df) \<subseteq> set (columns out)
     \<and> set (columns out) \<subseteq> set (columns df) \<union> {''cluster'', ''day_num''}
     \<and> (bbox = NoBbox \<longrightarrow> kept_rows df min_samples bbox = rows df)"
proof -
  define fd where "fd = df\<lparr>rows := kept_rows df min_samples bbox\<rparr>"
  have fd: "rows fd = kept_rows df min_samples bbox" "columns fd = columns df"
    "find_date_col fd = find_date_col df"
    by (simp_all add: fd_def find_date_col_rows)
  have nb: "bbox = NoBbox \<longrightarrow> kept_rows df min_samples bbox = rows df"
    by (simp add: kept_rows_def)
  consider (noise) "out = mark_noise fd"
    | (clustered) "cluster_stage to_datetime fd eps min_samples max_time_diff_days = Inr out"
    using apply_dbscan_cases[OF assms] by (auto simp: fd_def)
  then show ?thesis
  proof cases
    case noise
    have "length (rows out) = length (rows fd)"
      by (simp add: noise rows_mark_noise(1))
    moreover have "(rows out ! i) col = (rows fd ! i) col"
      if "i < length (rows fd)" "col \<noteq> ''cluster''" for i col
      using that by (simp add: noise rows_mark_noise(2))
    moreover have "set (columns out) = insert ''cluster'' (set (columns fd))"
      by (simp add: noise mark_noise_def columns_assign_column)
    ultimately show ?thesis
      using fd nb by auto
  next
    case clustered
    show ?thesis
      using rows_cluster_stage[OF clustered] columns_cluster_stage[OF clustered] fd nb
      by auto
  qed
qed

text \<open>
  The claim as stated fails: with a bounding box the clusterer drops the row outside
  it (two of three rows are returned), and it adds the column \<open>day_num\<close>.
\<close>

theorem clusterer_drops_rows_counterexample:
  "labels_of (apply_dbscan iso_to_datetime afghan_frame 0.01 1
      (Coords [60.52, 29.31, 75.15, 38.48]) 5) = [Some (IntV 0), Some (IntV 1)]
   \<and> length (rows afghan_frame) = 3
   \<and> columns_of (apply_dbscan iso_to_datetime afghan_frame 0.01 1
      (Coords [60.52, 29.31, 75.15, 38.48]) 5)
      = [''latitude'', ''longitude'', ''acq_date'', ''day_num'', ''cluster'']
   \<and> columns afghan_frame = [''latitude'', ''longitude'', ''acq_date'']"
  by (simp add: afghan_eval afghan_cells dbscan_eval)

theorem clusterer_keeps_rows_witness:
  "labels_of (apply_dbscan iso_to_datetime afghan_frame 0.01 1 NoBbox 5)
      = [Some (IntV 0), Some (IntV 1), Some (IntV 2)]
   \<and> kept_rows afghan_frame 1 NoBbox = [kabul_row, far_row, herat_row]
   \<and> (\<exists>out. apply_dbscan iso_to_datetime afghan_frame 0.01 1 NoBbox 5 = Inr out
        \<and> length (rows out) = 3
        \<and> (rows out ! 1) ''latitude'' = far_row ''latitude''
        \<and> (rows out ! 1) ''longitude'' = far_row ''longitude'')"
proof -
  have l: "labels_of (apply_dbscan iso_to_datetime afghan_frame 0.01 1 NoBbox 5)
      = [Some (IntV 0), Some (IntV 1), Some (IntV 2)]"
    by (simp add: afghan_eval afghan_cells dbscan_eval)
  have k: "kept_rows afghan_frame 1 NoBbox = [kabul_row, far_row, herat_row]"
    by (simp add: kept_rows_def afghan_frame_def)
  have "\<exists>out. apply_dbscan iso_to_datetime afghan_frame 0.01 1 NoBbox 5 = Inr out"
    by (simp add: afghan_eval afghan_cells dbscan_eval)
  then obtain out where o: "apply_dbscan iso_to_datetime afghan_frame 0.01 1 NoBbox 5 = Inr out"
    by blast
  have d: "find_date_col afghan_frame = Some ''acq_date''"
    by (simp add: find_date_col_def date_columns_def afghan_frame_def)
  have t: "length (rows out) = length (kept_rows afghan_frame 1 NoBbox)"
    "\<forall>i < length (rows out). \<forall>col.
        col \<noteq> ''cluster'' \<and> col \<noteq> ''day_num'' \<and> find_date_col afghan_frame \<noteq> Some col
        \<longrightarrow> (rows out ! i) col = (kept_rows afghan_frame 1 NoBbox ! i) col"
    using clusterer_keeps_rows[OF o] by blast+
  have n: "length (rows out) = 3"
    using t(1) k by simp
  have "(rows out ! 1) ''latitude'' = (kept_rows afghan_frame 1 NoBbox ! 1) ''latitude''"
    "(rows out ! 1) ''longitude'' = (kept_rows afghan_frame 1 NoBbox ! 1) ''longitude''"
    using t(2)[rule_format, of 1 "''latitude''"] t(2)[rule_format, of 1 "''longitude''"] n d
    by simp_all
  then have "length (rows out) = 3
        \<and> (rows out ! 1) ''latitude'' = far_row ''latitude''
        \<and> (rows out ! 1) ''longitude'' = far_row ''longitude''"
    using n k by simp
  then show ?thesis
    using l k o by blast
qed

end
